theory Spec2Isabelle
  imports Complex_Main "HOL-Library.AList" "HOL-Library.Log_Nat"
begin

section \<open>Python values, exceptions and the collaborators of \<open>models.py\<close>\<close>

text \<open>
  The module \<open>languagemodels/models.py\<close> is embedded function by function. A Python
  number, an \<open>int\<close> or a finite \<open>float\<close>, is the rational it denotes; the operations on
  floats round as IEEE 754 binary64 does (section on floats below). The floats \<open>inf\<close>
  and \<open>nan\<close> are no rationals and lie outside the model. Strings are byte strings and
  \<open>str.lower\<close> acts on the ASCII letters.

  Every \<open>raise\<close> of the module, and every exception a collaborator can raise into it,
  is a value of \<open>exn\<close>; a function that can raise returns \<open>exn + 'a\<close>.
\<close>

datatype exn =
    AssertionError
  | AttributeError
  | IndexError
  | KeyError
  | OverflowError
  | ValueError
  | ReError
  | ModelException string
  | ExternalError string

text \<open>
  The argument of \<open>set_max_ram\<close> / \<open>convert_to_gb\<close>: an \<open>int\<close> (of any size), a
  \<open>float\<close> or a string.
\<close>

datatype pyval = PyInt int | PyFloat rat | PyStr string

subsection \<open>Floats\<close>

text \<open>
  \<open>double_round\<close> is rounding to the nearest binary64 value, ties to the even
  significand: \<open>floor_log2\<close> is the binary exponent of a positive rational, the spacing of
  the doubles around it is \<open>2 ^ (e - 52)\<close> for the exponent \<open>e\<close>, not below the least
  normal exponent \<open>- 1022\<close> (so that subnormals are spaced \<open>2 ^ - 1074\<close>). There is no
  upper bound in \<open>double_round\<close> itself; where a result beyond the largest double can
  arise, the caller tests for it.

  \<open>float_div\<close> and \<open>float_mul\<close> are \<open>/\<close> and \<open>*\<close> on floats: the exact result,
  rounded. \<open>float_of_int\<close> is \<open>float(n)\<close> of an \<open>int\<close>: the nearest double, and
  \<open>OverflowError\<close> when that would be \<open>2 ^ 1024\<close> or more.
\<close>

definition pow2 :: "int \<Rightarrow> rat" where
  "pow2 k = (if 0 \<le> k then 2 ^ nat k else 1 / 2 ^ nat (- k))"

definition floor_log2 :: "rat \<Rightarrow> int" where
  "floor_log2 x =
     (let d = bitlen (fst (quotient_of x)) - bitlen (snd (quotient_of x))
      in if pow2 d \<le> x then d else d - 1)"

definition round_half_even :: "rat \<Rightarrow> int" where
  "round_half_even r =
     (let f = \<lfloor>r\<rfloor>; d = r - of_int f
      in if d < 1 / 2 then f else if 1 / 2 < d then f + 1 else if even f then f else f + 1)"

definition double_round :: "rat \<Rightarrow> rat" where
  "double_round x =
     (if x = 0 then 0
      else (let a = \<bar>x\<bar>; e = max (floor_log2 a) (- 1022); ulp = pow2 (e - 52)
            in sgn x * (of_int (round_half_even (a / ulp)) * ulp)))"

definition float_div :: "rat \<Rightarrow> rat \<Rightarrow> rat" where
  "float_div x y = double_round (x / y)"

definition float_mul :: "rat \<Rightarrow> rat \<Rightarrow> rat" where
  "float_mul x y = double_round (x * y)"

definition float_of_int :: "int \<Rightarrow> exn + rat" where
  "float_of_int n =
     (let r = double_round (of_int n)
      in if 2 ^ 1024 \<le> \<bar>r\<bar> then Inl OverflowError else Inr r)"

subsection \<open>Sequencing and strings\<close>

text \<open>Sequencing of calls that may raise: the first exception ends the sequence.\<close>

definition and_then :: "exn + 'a \<Rightarrow> ('a \<Rightarrow> exn + 'b) \<Rightarrow> exn + 'b" where
  "and_then m f = (case m of Inl e \<Rightarrow> Inl e | Inr x \<Rightarrow> f x)"

text \<open>\<open>str.lower\<close> on ASCII, the substring test \<open>p in s\<close> and \<open>s.rstrip("b")\<close>.\<close>

definition lower_char :: "char \<Rightarrow> char" where
  "lower_char c =
     (case map_of (zip ''ABCDEFGHIJKLMNOPQRSTUVWXYZ'' ''abcdefghijklmnopqrstuvwxyz'') c of
        Some l \<Rightarrow> l
      | None \<Rightarrow> c)"

definition str_lower :: "string \<Rightarrow> string" where
  "str_lower s = map lower_char s"

fun starts_with :: "string \<Rightarrow> string \<Rightarrow> bool" where
  "starts_with [] s = True"
| "starts_with (p # ps) [] = False"
| "starts_with (p # ps) (c # cs) = (p = c \<and> starts_with ps cs)"

fun str_in :: "string \<Rightarrow> string \<Rightarrow> bool" where
  "str_in p [] = (p = [])"
| "str_in p (c # cs) = (starts_with p (c # cs) \<or> str_in p cs)"

definition rstrip_b :: "string \<Rightarrow> string" where
  "rstrip_b s = rev (dropWhile (\<lambda>c. c = CHR ''b'') (rev s))"

subsection \<open>The collaborators\<close>

text \<open>The three runtime classes of \<open>ctranslate2\<close> the module constructs.\<close>

datatype ct2_class = Encoder | Generator | Translator

text \<open>
  The code the module calls but does not contain is a parameter of the model: the process
  environment, the builtin \<open>float\<close>, the module \<open>re\<close> (compilation of a pattern, which
  may raise \<open>re.error\<close>, and matching at the start of a string), the artifact store
  \<open>hf_hub_download\<close>, the tokenizer library and the inference runtime. \<open>'r\<close> is the type
  of compiled patterns, \<open>'t\<close> of tokenizers and \<open>'h\<close> of runtime model objects. A method
  that mutates its object returns the object's new state; a runtime object without the
  method \<open>unload_model\<close> or \<open>load_model\<close> answers \<open>Inl AttributeError\<close>.
\<close>

record ('r, 't, 'h) world =
  os_environ_get :: "string \<Rightarrow> string option"
  py_float :: "string \<Rightarrow> exn + rat"
  re_compile :: "string \<Rightarrow> exn + 'r"
  re_match_start :: "'r \<Rightarrow> string \<Rightarrow> bool"
  hf_hub_download :: "string \<Rightarrow> string \<Rightarrow> exn + string"
  Tokenizer_from_pretrained :: "string \<Rightarrow> exn + 't"
  Tokenizer_from_file :: "string \<Rightarrow> exn + 't"
  no_padding :: "'t \<Rightarrow> exn + 't"
  no_truncation :: "'t \<Rightarrow> exn + 't"
  ct2_construct :: "ct2_class \<Rightarrow> string \<Rightarrow> exn + 'h"
  unload_model :: "'h \<Rightarrow> exn + 'h"
  load_model :: "'h \<Rightarrow> exn + 'h"

section \<open>The catalog\<close>

record descriptor =
  name :: string
  tuning :: string
  datasets :: "string list option"
  params :: rat
  quantization :: string
  architecture :: string
  license :: string

definition models :: "descriptor list" where
  "models = [
    \<lparr>name = ''flan-alpaca-xl-ct2-int8'', tuning = ''instruct'',
     datasets = Some [''c4'', ''flan'', ''alpaca''], params = 3000000000,
     quantization = ''int8'', architecture = ''encoder-decoder-transformer'',
     license = ''cc-by-nc-4.0''\<rparr>,
    \<lparr>name = ''flan-alpaca-gpt4-xl-ct2-int8'', tuning = ''instruct'',
     datasets = Some [''c4'', ''flan'', ''gpt4-alpaca''], params = 3000000000,
     quantization = ''int8'', architecture = ''encoder-decoder-transformer'',
     license = ''cc-by-nc-4.0''\<rparr>,
    \<lparr>name = ''flan-t5-xl-ct2-int8'', tuning = ''instruct'',
     datasets = Some [''c4'', ''flan''], params = 3000000000,
     quantization = ''int8'', architecture = ''encoder-decoder-transformer'',
     license = ''apache-2.0''\<rparr>,
    \<lparr>name = ''fastchat-t5-3b-v1.0-ct2-int8'', tuning = ''instruct'',
     datasets = Some [''c4'', ''flan'', ''sharegpt''], params = 3000000000,
     quantization = ''int8'', architecture = ''encoder-decoder-transformer'',
     license = ''apache-2.0''\<rparr>,
    \<lparr>name = ''LaMini-Flan-T5-783M-ct2-int8'', tuning = ''instruct'',
     datasets = Some [''c4'', ''flan'', ''lamini''], params = 783000000,
     quantization = ''int8'', architecture = ''encoder-decoder-transformer'',
     license = ''cc-by-nc-4.0''\<rparr>,
    \<lparr>name = ''flan-t5-large-ct2-int8'', tuning = ''instruct'',
     datasets = Some [''c4'', ''flan''], params = 783000000,
     quantization = ''int8'', architecture = ''encoder-decoder-transformer'',
     license = ''apache-2.0''\<rparr>,
    \<lparr>name = ''LaMini-Flan-T5-248M-ct2-int8'', tuning = ''instruct'',
     datasets = Some [''c4'', ''flan'', ''lamini''], params = 248000000,
     quantization = ''int8'', architecture = ''encoder-decoder-transformer'',
     license = ''cc-by-nc-4.0''\<rparr>,
    \<lparr>name = ''flan-alpaca-base-ct2-int8'', tuning = ''instruct'',
     datasets = Some [''c4'', ''flan'', ''alpaca''], params = 248000000,
     quantization = ''int8'', architecture = ''encoder-decoder-transformer'',
     license = ''cc-by-nc-4.0''\<rparr>,
    \<lparr>name = ''flan-t5-base-ct2-int8'', tuning = ''instruct'',
     datasets = Some [''c4'', ''flan''], params = 248000000,
     quantization = ''int8'', architecture = ''encoder-decoder-transformer'',
     license = ''apache-2.0''\<rparr>,
    \<lparr>name = ''LaMini-Flan-T5-77M-ct2-int8'', tuning = ''instruct'',
     datasets = Some [''c4'', ''flan'', ''lamini''], params = 77000000,
     quantization = ''int8'', architecture = ''encoder-decoder-transformer'',
     license = ''cc-by-nc-4.0''\<rparr>,
    \<lparr>name = ''flan-t5-small-ct2-int8'', tuning = ''instruct'',
     datasets = Some [''c4'', ''flan''], params = 77000000,
     quantization = ''int8'', architecture = ''encoder-decoder-transformer'',
     license = ''apache-2.0''\<rparr>,
    \<lparr>name = ''LaMini-GPT-774M-ct2-int8'', tuning = ''instruct'',
     datasets = Some [''webtext'', ''lamini''], params = 774000000,
     quantization = ''int8'', architecture = ''decoder-only-transformer'',
     license = ''mit''\<rparr>,
    \<lparr>name = ''LaMini-GPT-124M-ct2-int8'', tuning = ''instruct'',
     datasets = Some [''webtext'', ''lamini''], params = 124000000,
     quantization = ''int8'', architecture = ''decoder-only-transformer'',
     license = ''mit''\<rparr>,
    \<lparr>name = ''all-MiniLM-L6-v2-ct2-int8'', tuning = ''embedding'',
     datasets = None, params = 22000000,
     quantization = ''int8'', architecture = ''encoder-only-transformer'',
     license = ''apache-2.0''\<rparr>
  ]"

section \<open>The selector: \<open>get_model_name\<close>\<close>

text \<open>
  \<open>licensematch = not license_match or re.match(license_match, model["license"])\<close>:
  \<open>None\<close> and the empty string are falsy; otherwise the pattern is compiled (which may
  raise) and matched at the start of the license.
\<close>

definition licensematch ::
  "('r, 't, 'h) world \<Rightarrow> string option \<Rightarrow> string \<Rightarrow> exn + bool" where
  "licensematch w lmatch lic =
     (case lmatch of
        None \<Rightarrow> Inr True
      | Some p \<Rightarrow>
          if p = [] then Inr True
          else (case re_compile w p of
                  Inl e \<Rightarrow> Inl e
                | Inr r \<Rightarrow> Inr (re_match_start w r lic)))"

text \<open>
  The \<open>for model in models\<close> loop, with its \<open>assert\<close> and the final \<open>raise\<close>.
  \<open>memsize = model["params"] / 1e9\<close> is a division of floats, and
  \<open>memsize < max_ram\<close> compares the rounded quotient with the budget.
\<close>

fun scan_models ::
  "('r, 't, 'h) world \<Rightarrow> descriptor list \<Rightarrow> string \<Rightarrow> rat \<Rightarrow> string option \<Rightarrow> exn + string"
where
  "scan_models w [] model_type ram lmatch =
     Inl (ModelException (''No valid model found for '' @ model_type))"
| "scan_models w (model # rest) model_type ram lmatch =
     (if quantization model \<noteq> ''int8'' then Inl AssertionError
      else
        (case licensematch w lmatch (license model) of
           Inl e \<Rightarrow> Inl e
         | Inr lm \<Rightarrow>
             if tuning model = model_type \<and> float_div (params model) 1000000000 < ram \<and> lm
             then Inr (name model)
             else scan_models w rest model_type ram lmatch))"

definition get_model_name ::
  "('r, 't, 'h) world \<Rightarrow> string \<Rightarrow> rat \<Rightarrow> string option \<Rightarrow> exn + string" where
  "get_model_name w model_type ram lmatch =
     (case os_environ_get w ''LANGUAGEMODELS_INSTRUCT_MODEL'' of
        Some pinned \<Rightarrow>
          if pinned \<noteq> [] \<and> model_type = ''instruct'' then Inr pinned
          else scan_models w models model_type ram lmatch
      | None \<Rightarrow> scan_models w models model_type ram lmatch)"

section \<open>The budget configuration\<close>

text \<open>
  The module's globals. The dictionary \<open>modelcache\<close> is an association list in
  insertion order (the order \<open>for model in modelcache\<close> visits), written with
  \<open>AList.update\<close>: an existing key keeps its place, a new key goes to the end. An entry
  is the tuple \<open>(tokenizer, model)\<close>, the model being \<open>None\<close> for a tokenizer-only load.
\<close>

type_synonym ('t, 'h) cache = "(string \<times> ('t \<times> 'h option)) list"

record ('t, 'h) state =
  modelcache :: "('t, 'h) cache"
  max_ram :: rat
  license_match :: "string option"

text \<open>The state after the module's top-level assignments (lines 8 to 10).\<close>

definition initial_state :: "('r, 't, 'h) world \<Rightarrow> ('t, 'h) state" where
  "initial_state w =
     \<lparr>modelcache = [], max_ram = 512,
      license_match = os_environ_get w ''LANGUAGEMODELS_MODEL_LICENSE''\<rparr>"

definition multipliers :: "char \<Rightarrow> rat option" where
  "multipliers c =
     (if c = CHR ''g'' then Some 1 else if c = CHR ''m'' then Some (1 / 1024) else None)"

text \<open>
  \<open>float(space)\<close> of a number: a float is returned as it is, an int is converted.
  \<open>space[-1]\<close> on the empty string raises \<open>IndexError\<close>. The product
  \<open>float(space[:-1]) * multipliers[space[-1]]\<close> is a product of floats.
\<close>

definition convert_to_gb :: "('r, 't, 'h) world \<Rightarrow> pyval \<Rightarrow> exn + rat" where
  "convert_to_gb w space =
     (case space of
        PyInt n \<Rightarrow> float_of_int n
      | PyFloat x \<Rightarrow> Inr x
      | PyStr s \<Rightarrow>
          (let space1 = rstrip_b (str_lower s) in
           if space1 = [] then Inl IndexError
           else (case multipliers (last space1) of
                   Some m \<Rightarrow> and_then (py_float w (butlast space1)) (\<lambda>x. Inr (float_mul x m))
                 | None \<Rightarrow> py_float w space1)))"

definition set_max_ram ::
  "('r, 't, 'h) world \<Rightarrow> ('t, 'h) state \<Rightarrow> pyval \<Rightarrow> (exn + rat) \<times> ('t, 'h) state" where
  "set_max_ram w s v =
     (case convert_to_gb w v of
        Inl e \<Rightarrow> (Inl e, s)
      | Inr x \<Rightarrow> (Inr x, s\<lparr>max_ram := x\<rparr>))"

text \<open>
  \<open>if max_ram:\<close> is a truthiness test: of a number, that it is not zero. The literals
  \<open>0.2\<close> and \<open>0.40\<close> are the doubles nearest to 1/5 and 2/5.
\<close>

definition get_max_ram :: "('r, 't, 'h) world \<Rightarrow> ('t, 'h) state \<Rightarrow> exn + rat" where
  "get_max_ram w s =
     (if max_ram s \<noteq> 0 then Inr (max_ram s)
      else (case os_environ_get w ''LANGUAGEMODELS_SIZE'' of
              None \<Rightarrow> Inr (double_round (2 / 5))
            | Some env0 \<Rightarrow>
                if env0 = [] then Inr (double_round (2 / 5))
                else (let env = str_lower env0 in
                      if env = ''small'' then Inr (double_round (1 / 5))
                      else if env = ''base'' then Inr (double_round (2 / 5))
                      else if env = ''large'' then Inr 1
                      else if env = ''xl'' then Inr 4
                      else if env = ''xxl'' then Inr 16
                      else convert_to_gb w (PyStr env))))"

definition require_model_license ::
  "('t, 'h) state \<Rightarrow> string option \<Rightarrow> ('t, 'h) state" where
  "require_model_license s match_re = s\<lparr>license_match := match_re\<rparr>"

section \<open>The cache: \<open>get_model\<close>\<close>

text \<open>
  The method call \<open>model.unload_model()\<close> / \<open>model.load_model()\<close> on the second
  component \<open>model\<close> of an entry: on \<open>None\<close> the attribute lookup raises
  \<open>AttributeError\<close>; on an object the method runs, and an object without the method
  raises \<open>AttributeError\<close> as well.
\<close>

definition call_method :: "('h \<Rightarrow> exn + 'h) \<Rightarrow> 'h option \<Rightarrow> exn + 'h option" where
  "call_method method m =
     (case m of
        None \<Rightarrow> Inl AttributeError
      | Some h \<Rightarrow> and_then (method h) (\<lambda>h'. Inr (Some h')))"

text \<open>
  \<open>try: modelcache[model][1].unload_model() / except AttributeError: pass\<close>: an
  \<open>AttributeError\<close> leaves the entry as it was, any other exception leaves the
  \<open>try\<close>. \<open>try_load\<close> is the same statement with \<open>load_model\<close>.
\<close>

definition try_unload :: "('r, 't, 'h) world \<Rightarrow> 'h option \<Rightarrow> exn + 'h option" where
  "try_unload w m =
     (case call_method (unload_model w) m of
        Inl e \<Rightarrow> if e = AttributeError then Inr m else Inl e
      | Inr m' \<Rightarrow> Inr m')"

definition try_load :: "('r, 't, 'h) world \<Rightarrow> 'h option \<Rightarrow> exn + 'h option" where
  "try_load w m =
     (case call_method (load_model w) m of
        Inl e \<Rightarrow> if e = AttributeError then Inr m else Inl e
      | Inr m' \<Rightarrow> Inr m')"

text \<open>
  The loop \<open>for model in modelcache: if model != model_name: ...\<close> (lines 326 to 332).
  The result is the exception that left the loop, if any, and the cache as the loop
  left it.
\<close>

fun unload_others ::
  "('r, 't, 'h) world \<Rightarrow> string \<Rightarrow> ('t, 'h) cache \<Rightarrow> exn option \<times> ('t, 'h) cache" where
  "unload_others w model_name [] = (None, [])"
| "unload_others w model_name ((model, (tok, m)) # rest) =
     (if model \<noteq> model_name then
        (case try_unload w m of
           Inl e \<Rightarrow> (Some e, (model, (tok, m)) # rest)
         | Inr m' \<Rightarrow>
             (case unload_others w model_name rest of
                (r, rest') \<Rightarrow> (r, (model, (tok, m')) # rest')))
      else
        (case unload_others w model_name rest of
           (r, rest') \<Rightarrow> (r, (model, (tok, m)) # rest')))"

text \<open>Lines 325 to 332: the loop runs under \<open>get_max_ram() < 4 and not tokenizer_only\<close>.\<close>

definition eviction_pass ::
  "('r, 't, 'h) world \<Rightarrow> rat \<Rightarrow> bool \<Rightarrow> string \<Rightarrow> ('t, 'h) cache
     \<Rightarrow> exn option \<times> ('t, 'h) cache" where
  "eviction_pass w ram tokenizer_only model_name cache =
     (if ram < 4 \<and> \<not> tokenizer_only then unload_others w model_name cache
      else (None, cache))"

text \<open>
  The branch of the \<open>if / elif / else\<close> chain of lines 341 to 373 that a model name
  takes, named by the runtime class the branch constructs.
\<close>

definition name_branch :: "string \<Rightarrow> ct2_class" where
  "name_branch model_name =
     (if str_in ''minilm'' (str_lower model_name) then Encoder
      else if str_in ''gpt'' (str_lower model_name) then Generator
      else Translator)"

text \<open>\<open>model = None\<close>, then \<open>if not tokenizer_only: model = ctranslate2.C(path, ...)\<close>.\<close>

definition construct_unless ::
  "('r, 't, 'h) world \<Rightarrow> bool \<Rightarrow> ct2_class \<Rightarrow> string \<Rightarrow> exn + 'h option" where
  "construct_unless w tokenizer_only c model_base_path =
     (if tokenizer_only then Inr None
      else and_then (ct2_construct w c model_base_path) (\<lambda>h. Inr (Some h)))"

text \<open>Lines 335 to 373: the downloads, the tokenizer and the model of a new entry.\<close>

definition build_entry ::
  "('r, 't, 'h) world \<Rightarrow> string \<Rightarrow> bool \<Rightarrow> exn + ('t \<times> 'h option)" where
  "build_entry w model_name tokenizer_only =
     (let repo = ''jncraton/'' @ model_name in
      and_then (hf_hub_download w repo ''config.json'') (\<lambda>_.
      and_then (hf_hub_download w repo ''model.bin'') (\<lambda>model_path.
      let model_base_path = take (length model_path - 10) model_path in
      case name_branch model_name of
        Encoder \<Rightarrow>
          and_then (hf_hub_download w repo ''vocabulary.txt'') (\<lambda>_.
          and_then (Tokenizer_from_pretrained w repo) (\<lambda>tokenizer0.
          and_then (no_padding w tokenizer0) (\<lambda>tokenizer1.
          and_then (no_truncation w tokenizer1) (\<lambda>tokenizer.
          and_then (construct_unless w tokenizer_only Encoder model_base_path) (\<lambda>model.
          Inr (tokenizer, model))))))
      | Generator \<Rightarrow>
          and_then (hf_hub_download w repo ''vocabulary.json'') (\<lambda>_.
          and_then (Tokenizer_from_pretrained w repo) (\<lambda>tokenizer.
          and_then (construct_unless w tokenizer_only Generator model_base_path) (\<lambda>model.
          Inr (tokenizer, model))))
      | Translator \<Rightarrow>
          and_then (hf_hub_download w repo ''shared_vocabulary.txt'') (\<lambda>_.
          and_then (hf_hub_download w repo ''tokenizer.json'') (\<lambda>tok_config.
          and_then (Tokenizer_from_file w tok_config) (\<lambda>tokenizer.
          and_then (construct_unless w tokenizer_only Translator model_base_path) (\<lambda>model.
          Inr (tokenizer, model))))))))"

text \<open>
  Lines 334 to 380: a name that is not a key gets a new entry; a cached name, on a full
  request, has \<open>load_model\<close> tried on its model.
\<close>

definition load_or_reload ::
  "('r, 't, 'h) world \<Rightarrow> string \<Rightarrow> bool \<Rightarrow> ('t, 'h) cache \<Rightarrow> exn option \<times> ('t, 'h) cache"
where
  "load_or_reload w model_name tokenizer_only cache =
     (case map_of cache model_name of
        None \<Rightarrow>
          (case build_entry w model_name tokenizer_only of
             Inl e \<Rightarrow> (Some e, cache)
           | Inr entry \<Rightarrow> (None, AList.update model_name entry cache))
      | Some (tok, m) \<Rightarrow>
          if \<not> tokenizer_only then
            (case try_load w m of
               Inl e \<Rightarrow> (Some e, cache)
             | Inr m' \<Rightarrow> (None, AList.update model_name (tok, m') cache))
          else (None, cache))"

text \<open>
  \<open>get_model\<close>: the result or the exception, and the globals as the call leaves them.
  \<open>get_max_ram()\<close> is evaluated for line 323 and again for line 325.
\<close>

definition get_model ::
  "('r, 't, 'h) world \<Rightarrow> ('t, 'h) state \<Rightarrow> string \<Rightarrow> bool
     \<Rightarrow> (exn + ('t \<times> 'h option)) \<times> ('t, 'h) state" where
  "get_model w s model_type tokenizer_only =
     (case and_then (get_max_ram w s) (\<lambda>ram.
             get_model_name w model_type ram (license_match s)) of
        Inl e \<Rightarrow> (Inl e, s)
      | Inr model_name \<Rightarrow>
          (case get_max_ram w s of
             Inl e \<Rightarrow> (Inl e, s)
           | Inr ram \<Rightarrow>
               (case eviction_pass w ram tokenizer_only model_name (modelcache s) of
                  (Some e, cache1) \<Rightarrow> (Inl e, s\<lparr>modelcache := cache1\<rparr>)
                | (None, cache1) \<Rightarrow>
                    (case load_or_reload w model_name tokenizer_only cache1 of
                       (Some e, cache2) \<Rightarrow> (Inl e, s\<lparr>modelcache := cache2\<rparr>)
                     | (None, cache2) \<Rightarrow>
                         (case map_of cache2 model_name of
                            None \<Rightarrow> (Inl KeyError, s\<lparr>modelcache := cache2\<rparr>)
                          | Some entry \<Rightarrow> (Inr entry, s\<lparr>modelcache := cache2\<rparr>))))))"

section \<open>A concrete world\<close>

text \<open>
  One instance of the collaborators, on which the functions above evaluate. It is used
  to run the module on concrete calls; the general theorems hold for every world.

  \<open>dec_float\<close> is \<open>float\<close> on plain decimal literals: an optional sign, digits, and
  optionally a point and more digits, with at least one digit (\<open>"4"\<close>, \<open>".5"\<close>,
  \<open>"4."\<close>, \<open>"-0.25"\<close>), read as the nearest double. Everything else raises
  \<open>ValueError\<close> here; Python's \<open>float\<close> also reads exponents, \<open>inf\<close>, \<open>nan\<close>,
  underscores and surrounding blanks, and turns a literal beyond the largest double
  into \<open>inf\<close>, which this instance leaves out.
\<close>

definition is_digit :: "char \<Rightarrow> bool" where
  "is_digit c = (c \<in> set ''0123456789'')"

definition digit_val :: "char \<Rightarrow> nat" where
  "digit_val c =
     (case map_of (zip ''0123456789'' [0, 1, 2, 3, 4, 5, 6, 7, 8, 9]) c of
        Some d \<Rightarrow> d
      | None \<Rightarrow> 0)"

definition digits_val :: "string \<Rightarrow> nat" where
  "digits_val ds = foldl (\<lambda>a c. 10 * a + digit_val c) 0 ds"

definition unsigned_float :: "string \<Rightarrow> exn + rat" where
  "unsigned_float body =
     (let ip = takeWhile is_digit body in
      case dropWhile is_digit body of
        [] \<Rightarrow> if ip = [] then Inl ValueError else Inr (double_round (of_nat (digits_val ip)))
      | c # fp \<Rightarrow>
          if c = CHR ''.'' \<and> list_all is_digit fp \<and> (ip \<noteq> [] \<or> fp \<noteq> [])
          then Inr (double_round
                     (of_nat (digits_val ip) + of_nat (digits_val fp) / 10 ^ length fp))
          else Inl ValueError)"

definition dec_float :: "string \<Rightarrow> exn + rat" where
  "dec_float s =
     (case s of
        [] \<Rightarrow> Inl ValueError
      | c # cs \<Rightarrow>
          if c = CHR ''-'' then and_then (unsigned_float cs) (\<lambda>x. Inr (- x))
          else if c = CHR ''+'' then unsigned_float cs
          else unsigned_float s)"

text \<open>
  \<open>simple_compile\<close> and \<open>simple_match\<close> are \<open>re.match\<close> on patterns made of plain
  characters, the wildcard \<open>.\<close> and the postfix \<open>*\<close>. A \<open>*\<close> with nothing before it to
  repeat (at the start, or after another \<open>*\<close>) is rejected with \<open>re.error\<close>, as Python
  does. A pattern using any other metacharacter is outside this instance and reported as
  \<open>ExternalError\<close>.
\<close>

datatype re_atom = AnyChar | Lit char

type_synonym simple_re = "(re_atom \<times> bool) list"

definition re_atom_of :: "char \<Rightarrow> re_atom" where
  "re_atom_of c = (if c = CHR ''.'' then AnyChar else Lit c)"

definition re_other_meta :: "char \<Rightarrow> bool" where
  "re_other_meta c = (c \<in> set ''+?{}[]()|^$'' \<or> c = CHR 0x5C)"

fun simple_compile :: "string \<Rightarrow> exn + simple_re" where
  "simple_compile [] = Inr []"
| "simple_compile [c] =
     (if c = CHR ''*'' then Inl ReError
      else if re_other_meta c then Inl (ExternalError ''unsupported pattern'')
      else Inr [(re_atom_of c, False)])"
| "simple_compile (c # d # cs) =
     (if c = CHR ''*'' then Inl ReError
      else if re_other_meta c then Inl (ExternalError ''unsupported pattern'')
      else if d = CHR ''*''
        then and_then (simple_compile cs) (\<lambda>r. Inr ((re_atom_of c, True) # r))
        else and_then (simple_compile (d # cs)) (\<lambda>r. Inr ((re_atom_of c, False) # r)))"

fun atom_accepts :: "re_atom \<Rightarrow> char \<Rightarrow> bool" where
  "atom_accepts AnyChar c = (c \<noteq> CHR 0x0A)"
| "atom_accepts (Lit l) c = (l = c)"

fun simple_match :: "simple_re \<Rightarrow> string \<Rightarrow> bool" where
  "simple_match [] s = True"
| "simple_match ((a, False) # r) [] = False"
| "simple_match ((a, False) # r) (c # cs) = (atom_accepts a c \<and> simple_match r cs)"
| "simple_match ((a, True) # r) [] = simple_match r []"
| "simple_match ((a, True) # r) (c # cs) =
     ((atom_accepts a c \<and> simple_match ((a, True) # r) cs) \<or> simple_match r (c # cs))"

text \<open>
  Tokenizers and runtime objects as records of what the module can observe of them. Of
  the runtime classes, \<open>Encoder\<close> has neither \<open>unload_model\<close> nor \<open>load_model\<close> (the
  comments at lines 331 and 379).
\<close>

record tokenizer =
  tok_source :: string
  padding :: bool
  truncation :: bool

record handle =
  cls :: ct2_class
  model_dir :: string
  loaded :: bool

definition std_unload :: "handle \<Rightarrow> exn + handle" where
  "std_unload h = (if cls h = Encoder then Inl AttributeError else Inr (h\<lparr>loaded := False\<rparr>))"

definition std_load :: "handle \<Rightarrow> exn + handle" where
  "std_load h = (if cls h = Encoder then Inl AttributeError else Inr (h\<lparr>loaded := True\<rparr>))"

definition std_world :: "(string \<Rightarrow> string option) \<Rightarrow> (simple_re, tokenizer, handle) world" where
  "std_world env =
     \<lparr>os_environ_get = env,
      py_float = dec_float,
      re_compile = simple_compile,
      re_match_start = simple_match,
      hf_hub_download = (\<lambda>repo file. Inr (''/hub/'' @ repo @ ''/'' @ file)),
      Tokenizer_from_pretrained =
        (\<lambda>repo. Inr \<lparr>tok_source = repo, padding = True, truncation = True\<rparr>),
      Tokenizer_from_file =
        (\<lambda>file. Inr \<lparr>tok_source = file, padding = True, truncation = True\<rparr>),
      no_padding = (\<lambda>t. Inr (t\<lparr>padding := False\<rparr>)),
      no_truncation = (\<lambda>t. Inr (t\<lparr>truncation := False\<rparr>)),
      ct2_construct = (\<lambda>c dir. Inr \<lparr>cls = c, model_dir = dir, loaded = True\<rparr>),
      unload_model = std_unload,
      load_model = std_load\<rparr>"

text \<open>The environment with no variable set.\<close>

definition no_env :: "string \<Rightarrow> string option" where
  "no_env v = None"

section \<open>What the claims say of the selector\<close>

text \<open>
  The pinned-name override is absent when \<open>LANGUAGEMODELS_INSTRUCT_MODEL\<close> is unset or
  empty. A descriptor is selectable when its purpose is the requested one, its
  \<open>params / 1e9\<close> (the float quotient) is strictly below the budget, and the license
  filter is absent or empty
  or matches the descriptor's license at its start. A filter is well formed when it is
  absent, empty or a pattern that compiles.
\<close>

definition pin_absent :: "('r, 't, 'h) world \<Rightarrow> bool" where
  "pin_absent w =
     (case os_environ_get w ''LANGUAGEMODELS_INSTRUCT_MODEL'' of None \<Rightarrow> True | Some p \<Rightarrow> p = [])"

definition matches_filter :: "('r, 't, 'h) world \<Rightarrow> string option \<Rightarrow> string \<Rightarrow> bool" where
  "matches_filter w lmatch lic =
     (case lmatch of
        None \<Rightarrow> True
      | Some p \<Rightarrow> p = [] \<or> (case re_compile w p of Inl e \<Rightarrow> False | Inr r \<Rightarrow> re_match_start w r lic))"

definition selectable ::
  "('r, 't, 'h) world \<Rightarrow> string \<Rightarrow> rat \<Rightarrow> string option \<Rightarrow> descriptor \<Rightarrow> bool" where
  "selectable w model_type ram lmatch d =
     (tuning d = model_type \<and> float_div (params d) 1000000000 < ram
      \<and> matches_filter w lmatch (license d))"

definition filter_wellformed :: "('r, 't, 'h) world \<Rightarrow> string option \<Rightarrow> bool" where
  "filter_wellformed w lmatch =
     (case lmatch of None \<Rightarrow> True | Some p \<Rightarrow> p = [] \<or> \<not> isl (re_compile w p))"

definition all_int8 :: "descriptor list \<Rightarrow> bool" where
  "all_int8 ms = list_all (\<lambda>m. quantization m = ''int8'') ms"


text \<open>The \<open>params\<close> of the catalog's descriptor of a given name.\<close>

definition params_of :: "string \<Rightarrow> rat option" where
  "params_of n = map_of (map (\<lambda>d. (name d, params d)) models) n"


section \<open>What the claims say of the budget configuration\<close>

text \<open>
  A size string in the words of the specification: a valid number followed by one of the
  recognized suffixes \<open>g\<close>, \<open>gb\<close>, \<open>m\<close>, \<open>mb\<close> in either case, or by none.
\<close>

definition recognized_suffixes :: "string list" where
  "recognized_suffixes = ['''', ''g'', ''gb'', ''m'', ''mb'']"

definition spec_size_string :: "('r, 't, 'h) world \<Rightarrow> string \<Rightarrow> bool" where
  "spec_size_string w s =
     list_ex (\<lambda>suffix.
        length suffix \<le> length s
        \<and> str_lower (drop (length s - length suffix) s) = suffix
        \<and> \<not> isl (py_float w (take (length s - length suffix) s)))
      recognized_suffixes"

section \<open>What the claims say of the cache\<close>

text \<open>
  The runtime class the specification prescribes for an architecture tag: an Encoder for
  encoder-only, a Generator for decoder-only, a Translator for encoder-decoder.
\<close>

definition prescribed_class :: "string \<Rightarrow> ct2_class option" where
  "prescribed_class arch =
     (if arch = ''encoder-only-transformer'' then Some Encoder
      else if arch = ''decoder-only-transformer'' then Some Generator
      else if arch = ''encoder-decoder-transformer'' then Some Translator
      else None)"

text \<open>The architecture tag of the catalog's descriptor of a given name.\<close>

definition architecture_of :: "string \<Rightarrow> string option" where
  "architecture_of n = map_of (map (\<lambda>d. (name d, architecture d)) models) n"

text \<open>The environment in which only \<open>LANGUAGEMODELS_INSTRUCT_MODEL\<close> is set.\<close>

definition pin_env :: "string \<Rightarrow> string \<Rightarrow> string option" where
  "pin_env pinned v = (if v = ''LANGUAGEMODELS_INSTRUCT_MODEL'' then Some pinned else None)"







text \<open>The name line 323 resolves, and the keys of the cache in insertion order.\<close>

definition resolved_name :: "('r, 't, 'h) world \<Rightarrow> ('t, 'h) state \<Rightarrow> string \<Rightarrow> exn + string" where
  "resolved_name w s model_type =
     and_then (get_max_ram w s) (\<lambda>ram. get_model_name w model_type ram (license_match s))"

definition cache_keys :: "('t, 'h) state \<Rightarrow> string list" where
  "cache_keys s = map fst (modelcache s)"

text \<open>
  A sequence of calls of the module's public functions, run from a state; an exception
  ends the call that raised it, not the sequence.
\<close>

datatype call =
    GetModel string bool
  | SetMaxRam pyval
  | RequireModelLicense "string option"

fun run_call :: "('r, 't, 'h) world \<Rightarrow> ('t, 'h) state \<Rightarrow> call \<Rightarrow> ('t, 'h) state" where
  "run_call w s (GetModel model_type tokenizer_only) = snd (get_model w s model_type tokenizer_only)"
| "run_call w s (SetMaxRam v) = snd (set_max_ram w s v)"
| "run_call w s (RequireModelLicense match_re) = require_model_license s match_re"

fun run_calls :: "('r, 't, 'h) world \<Rightarrow> ('t, 'h) state \<Rightarrow> call list \<Rightarrow> ('t, 'h) state" where
  "run_calls w s [] = s"
| "run_calls w s (c # cs) = run_calls w (run_call w s c) cs"

text \<open>Values for the concrete runs of the cache.\<close>

definition flan_xl_tokenizer :: tokenizer where
  "flan_xl_tokenizer =
     \<lparr>tok_source = ''/hub/jncraton/flan-alpaca-xl-ct2-int8/tokenizer.json'',
      padding = True, truncation = True\<rparr>"






section \<open>What the claims say of the selector, continued\<close>

text \<open>
  Among the descriptors of a list, a smaller float quotient \<open>params / 1e9\<close> comes from
  a smaller \<open>params\<close>.
\<close>

definition sizes_ordered :: "descriptor list \<Rightarrow> bool" where
  "sizes_ordered ms =
     list_all (\<lambda>d1. list_all (\<lambda>d2.
        float_div (params d1) 1000000000 < float_div (params d2) 1000000000
          \<longrightarrow> params d1 \<le> params d2) ms) ms"

section \<open>Floats: proofs\<close>

text \<open>An integer of magnitude at most \<open>2 ^ 53\<close> is a double.\<close>

lemma round_half_even_of_int: "round_half_even (of_int j) = j"
  by (simp add: round_half_even_def)

lemma pow2_pos: "0 < pow2 k"
  by (simp add: pow2_def)

lemma floor_log2_of_int:
  assumes "0 < m"
  shows "floor_log2 (of_int m) = bitlen m - 1"
proof -
  have b1: "bitlen 1 = 1" by (simp add: bitlen_alt_def)
  from assms have ge: "1 \<le> bitlen m" by (auto simp: bitlen_alt_def)
  from bitlen_bounds[OF assms] have "(2::int) ^ nat (bitlen m - 1) \<le> m" by simp
  then have "(of_int ((2::int) ^ nat (bitlen m - 1)) :: rat) \<le> of_int m"
    by (simp only: of_int_le_iff)
  then have "pow2 (bitlen m - 1) \<le> of_int m"
    using ge by (simp add: pow2_def)
  then show ?thesis
    by (simp add: floor_log2_def b1)
qed

lemma double_round_exact:
  assumes x: "x \<noteq> 0" and u: "u = pow2 (max (floor_log2 \<bar>x\<bar>) (- 1022) - 52)"
    and a: "\<bar>x\<bar> = of_int j * u"
  shows "double_round x = x"
proof -
  have u0: "u \<noteq> 0" using pow2_pos[of "max (floor_log2 \<bar>x\<bar>) (- 1022) - 52"]
    unfolding u by simp
  have q: "\<bar>x\<bar> / u = of_int j"
    unfolding a using u0 by simp
  have "of_int (round_half_even (\<bar>x\<bar> / u)) * u = of_int j * u"
    by (simp only: q round_half_even_of_int)
  then have "of_int (round_half_even (\<bar>x\<bar> / u)) * u = \<bar>x\<bar>"
    by (simp only: a[symmetric])
  then have "double_round x = sgn x * \<bar>x\<bar>"
    using x unfolding double_round_def Let_def u by simp
  then show ?thesis by (simp add: mult.commute abs_sgn)
qed

lemma double_round_of_int:
  assumes "\<bar>n\<bar> \<le> 2 ^ 53"
  shows "double_round (of_int n) = of_int n"
proof (cases "n = 0")
  case True
  then show ?thesis by (simp add: double_round_def)
next
  case False
  let ?m = "\<bar>n\<bar>"
  from False have m: "0 < ?m" by simp
  let ?d = "bitlen ?m - 1"
  have abs: "\<bar>of_int n :: rat\<bar> = of_int ?m" by simp
  have fl: "floor_log2 \<bar>of_int n :: rat\<bar> = ?d"
    unfolding abs by (rule floor_log2_of_int[OF m])
  from m have d0: "0 \<le> ?d" by (auto simp: bitlen_alt_def)
  from bitlen_bounds[OF m] have "(2::int) ^ nat ?d \<le> ?m" by blast
  then have "(2::int) ^ nat ?d \<le> 2 ^ 53" using assms by (rule order_trans)
  then have "nat ?d \<le> 53" by (rule power_le_imp_le_exp[rotated]) simp
  then have d53: "?d \<le> 53" by simp
  have e: "max ?d (- 1022) = ?d" using d0 by simp
  have "\<exists>j. (of_int ?m :: rat) = of_int j * pow2 (?d - 52)"
  proof (cases "?d \<le> 52")
    case True
    then have "pow2 (?d - 52) = 1 / 2 ^ nat (52 - ?d)"
      by (cases "?d = 52") (simp_all add: pow2_def)
    then have "(of_int ?m :: rat) = of_int (?m * 2 ^ nat (52 - ?d)) * pow2 (?d - 52)"
      by simp
    then show ?thesis by blast
  next
    case False
    with d53 have d: "?d = 53" by simp
    from bitlen_bounds[OF m] d have "(2::int) ^ 53 \<le> ?m" by simp
    with assms have "?m = 2 ^ 53" by simp
    then have "(of_int ?m :: rat) = of_int (2 ^ 52) * pow2 (?d - 52)"
      using d by (simp add: pow2_def)
    then show ?thesis by blast
  qed
  then obtain j where j: "(of_int ?m :: rat) = of_int j * pow2 (?d - 52)" by blast
  have u: "pow2 (?d - 52) = pow2 (max (floor_log2 \<bar>of_int n :: rat\<bar>) (- 1022) - 52)"
    unfolding fl e ..
  have a: "\<bar>of_int n :: rat\<bar> = of_int j * pow2 (?d - 52)"
    unfolding abs by (rule j)
  from False have nz: "(of_int n :: rat) \<noteq> 0" by simp
  show ?thesis by (rule double_round_exact[OF nz u a])
qed

lemma float_of_int_exact: "\<bar>n\<bar> \<le> 2 ^ 53 \<Longrightarrow> float_of_int n = Inr (of_int n)"
proof -
  assume a: "\<bar>n\<bar> \<le> 2 ^ 53"
  have "(of_int \<bar>n\<bar> :: rat) \<le> of_int (2 ^ 53)" using a by (simp only: of_int_le_iff)
  then have "\<bar>of_int n :: rat\<bar> < 2 ^ 1024" by simp
  then show ?thesis
    by (simp add: float_of_int_def double_round_of_int[OF a])
qed

text \<open>\<open>2 ^ 1024\<close> is its own rounding, and beyond the largest double.\<close>

lemma double_round_pow: "double_round (of_int (2 ^ 1024)) = 2 ^ 1024"
proof -
  have b: "bitlen (2 ^ 1024) = 1025"
    using bitlen_pow2[of 1 1024] by (simp add: bitlen_alt_def)
  have fl: "floor_log2 \<bar>of_int (2 ^ 1024) :: rat\<bar> = 1024"
    using floor_log2_of_int[of "2 ^ 1024"] b by simp
  have u: "pow2 972 = pow2 (max (floor_log2 \<bar>of_int (2 ^ 1024) :: rat\<bar>) (- 1022) - 52)"
    unfolding fl by simp
  have a: "\<bar>of_int (2 ^ 1024) :: rat\<bar> = of_int (2 ^ 52) * pow2 972"
    by (simp add: pow2_def)
  have nz: "(of_int (2 ^ 1024) :: rat) \<noteq> 0" by simp
  show ?thesis using double_round_exact[OF nz u a] by simp
qed

text \<open>The literals \<open>0.40\<close> and \<open>0.2\<close> as doubles.\<close>

lemma double_round_literals:
  "double_round (2 / 5) = 3602879701896397 / 9007199254740992"
  "double_round (1 / 5) = 3602879701896397 / 18014398509481984"
  by code_simp+

text \<open>The float quotients \<open>params / 1e9\<close> of the catalog.\<close>

lemma catalog_memsize:
  "float_div 3000000000 1000000000 = 3"
  "float_div 783000000 1000000000 = 7052637016462197 / 9007199254740992"
  "float_div 774000000 1000000000 = 871446527896191 / 1125899906842624"
  "float_div 248000000 1000000000 = 1116892707587883 / 4503599627370496"
  "float_div 124000000 1000000000 = 1116892707587883 / 9007199254740992"
  "float_div 77000000 1000000000 = 5548434740920451 / 72057594037927936"
  "float_div 22000000 1000000000 = 3170534137668829 / 144115188075855872"
  by code_simp+

section \<open>The selector: proofs\<close>

lemma models_all_int8: "all_int8 models"
  by (simp add: all_int8_def models_def)

lemma licensematch_wellformed:
  "filter_wellformed w lm \<Longrightarrow> licensematch w lm lic = Inr (matches_filter w lm lic)"
  by (auto simp: filter_wellformed_def licensematch_def matches_filter_def
      split: option.splits sum.splits)

lemma matches_filter_wellformed: "matches_filter w lm lic \<Longrightarrow> filter_wellformed w lm"
  by (auto simp: filter_wellformed_def matches_filter_def split: option.splits sum.splits)

lemma licensematch_Inl:
  "licensematch w lm lic = Inl e \<Longrightarrow> \<not> filter_wellformed w lm"
  by (auto simp: filter_wellformed_def licensematch_def split: option.splits sum.splits if_splits)

lemma scan_models_step:
  "quantization m = ''int8'' \<Longrightarrow> filter_wellformed w lm \<Longrightarrow>
   scan_models w (m # ms) mt ram lm =
     (if selectable w mt ram lm m then Inr (name m) else scan_models w ms mt ram lm)"
  by (simp add: licensematch_wellformed selectable_def)

lemma scan_models_first:
  "all_int8 ms \<Longrightarrow> \<exists>d\<in>set ms. selectable w mt ram lm d \<Longrightarrow>
   \<exists>i<length ms. selectable w mt ram lm (ms ! i) \<and> (\<forall>j<i. \<not> selectable w mt ram lm (ms ! j))
      \<and> scan_models w ms mt ram lm = Inr (name (ms ! i))"
proof (induction ms)
  case Nil
  then show ?case by simp
next
  case (Cons m ms)
  from Cons.prems have q: "quantization m = ''int8''" and rest: "all_int8 ms"
    by (simp_all add: all_int8_def)
  from Cons.prems obtain d where "selectable w mt ram lm d" by blast
  then have wf: "filter_wellformed w lm"
    by (auto simp: selectable_def dest: matches_filter_wellformed)
  show ?case
  proof (cases "selectable w mt ram lm m")
    case True
    with q wf have "scan_models w (m # ms) mt ram lm = Inr (name m)"
      by (simp add: scan_models_step del: scan_models.simps)
    with True show ?thesis by (intro exI[of _ 0]) simp
  next
    case False
    with Cons.prems have "\<exists>d\<in>set ms. selectable w mt ram lm d" by auto
    from Cons.IH[OF rest this] obtain i where i: "i < length ms"
      "selectable w mt ram lm (ms ! i)" "\<forall>j<i. \<not> selectable w mt ram lm (ms ! j)"
      "scan_models w ms mt ram lm = Inr (name (ms ! i))" by blast
    have "\<forall>j<Suc i. \<not> selectable w mt ram lm ((m # ms) ! j)"
      using False i(3) by (auto simp: less_Suc_eq_0_disj)
    moreover have "scan_models w (m # ms) mt ram lm = Inr (name ((m # ms) ! Suc i))"
      using q wf False i(4) by (simp add: scan_models_step del: scan_models.simps)
    ultimately show ?thesis using i(1,2) by (intro exI[of _ "Suc i"]) simp
  qed
qed

lemma scan_models_Inr:
  "scan_models w ms mt ram lm = Inr n \<Longrightarrow> \<exists>d\<in>set ms. name d = n \<and> selectable w mt ram lm d"
proof (induction ms)
  case Nil
  then show ?case by simp
next
  case (Cons m ms)
  then show ?case
    by (auto simp: selectable_def licensematch_def matches_filter_def
        split: if_splits sum.splits option.splits)
qed

lemma scan_models_none:
  "all_int8 ms \<Longrightarrow> filter_wellformed w lm \<Longrightarrow>
   (scan_models w ms mt ram lm = Inl (ModelException (''No valid model found for '' @ mt)))
     = (\<not> (\<exists>d\<in>set ms. selectable w mt ram lm d))"
  by (induction ms) (auto simp: all_int8_def scan_models_step simp del: scan_models.simps(2))

lemma scan_models_error:
  "all_int8 ms \<Longrightarrow> filter_wellformed w lm \<Longrightarrow> scan_models w ms mt ram lm = Inl e \<Longrightarrow>
   e = ModelException (''No valid model found for '' @ mt)"
  by (induction ms) (auto simp: all_int8_def scan_models_step simp del: scan_models.simps(2) split: if_splits)

lemma get_model_name_scan:
  "pin_absent w \<Longrightarrow> get_model_name w mt ram lm = scan_models w models mt ram lm"
  by (auto simp: pin_absent_def get_model_name_def split: option.splits)

lemma std_pin_absent: "pin_absent (std_world no_env)"
  by (simp add: pin_absent_def std_world_def no_env_def)

lemma std_apache:
  "re_compile (std_world no_env) ''apache*'' = Inr [(Lit CHR ''a'', False), (Lit CHR ''p'', False), (Lit CHR ''a'', False), (Lit CHR ''c'', False), (Lit CHR ''h'', False), (Lit CHR ''e'', True)]"
  by (simp add: std_world_def and_then_def re_atom_of_def re_other_meta_def)


text \<open>
  Claim C1. With the pinned-name override absent, whenever some descriptor of the catalog
  is selectable, \<open>get_model_name\<close> returns the name of the earliest selectable descriptor
  of \<open>models\<close>: a descriptor at an index \<open>i\<close> that is selectable while no descriptor at a
  smaller index is. In particular, in every world whose \<open>re\<close> matches \<open>apache*\<close> at the
  start of \<open>apache-2.0\<close> and not of \<open>cc-by-nc-4.0\<close>,
  \<open>get_model_name("instruct", 1.0, "apache*")\<close> is \<open>flan-t5-large-ct2-int8\<close>. The size
  bound is strict on the float quotient: at the budget that is the double \<open>0.783\<close>
  (7052637016462197 / 2^53, which is also \<open>783e6 / 1e9\<close>) the descriptors of 783e6
  parameters are passed over, and at the next double above it the first of them is
  selected.
\<close>

theorem select_name_earliest:
  assumes "pin_absent w"
  shows "((\<exists>d\<in>set models. selectable w mt ram lm d) \<longrightarrow>
           (\<exists>i<length models. selectable w mt ram lm (models ! i)
              \<and> (\<forall>j<i. \<not> selectable w mt ram lm (models ! j))
              \<and> get_model_name w mt ram lm = Inr (name (models ! i))))
       \<and> ((\<exists>r. re_compile w ''apache*'' = Inr r \<and> re_match_start w r ''apache-2.0''
                \<and> \<not> re_match_start w r ''cc-by-nc-4.0'') \<longrightarrow>
            get_model_name w ''instruct'' 1 (Some ''apache*'') = Inr ''flan-t5-large-ct2-int8'')
       \<and> get_model_name w ''instruct'' (7052637016462197 / 9007199254740992) None
            = Inr ''LaMini-Flan-T5-248M-ct2-int8''
       \<and> get_model_name w ''instruct'' (7052637016462198 / 9007199254740992) None
            = Inr ''LaMini-Flan-T5-783M-ct2-int8''"
proof (intro conjI impI)
  show "get_model_name w ''instruct'' (7052637016462197 / 9007199254740992) None
            = Inr ''LaMini-Flan-T5-248M-ct2-int8''"
    using assms by (simp add: get_model_name_scan models_def licensematch_def catalog_memsize)
  show "get_model_name w ''instruct'' (7052637016462198 / 9007199254740992) None
            = Inr ''LaMini-Flan-T5-783M-ct2-int8''"
    using assms by (simp add: get_model_name_scan models_def licensematch_def catalog_memsize)
next
  assume "\<exists>d\<in>set models. selectable w mt ram lm d"
  with scan_models_first[OF models_all_int8] assms
  show "\<exists>i<length models. selectable w mt ram lm (models ! i)
              \<and> (\<forall>j<i. \<not> selectable w mt ram lm (models ! j))
              \<and> get_model_name w mt ram lm = Inr (name (models ! i))"
    by (simp add: get_model_name_scan)
next
  assume "\<exists>r. re_compile w ''apache*'' = Inr r \<and> re_match_start w r ''apache-2.0''
                \<and> \<not> re_match_start w r ''cc-by-nc-4.0''"
  then obtain r where "re_compile w ''apache*'' = Inr r" "re_match_start w r ''apache-2.0''"
     "\<not> re_match_start w r ''cc-by-nc-4.0''" by blast
  then show "get_model_name w ''instruct'' 1 (Some ''apache*'') = Inr ''flan-t5-large-ct2-int8''"
    using assms by (simp add: get_model_name_scan models_def licensematch_def catalog_memsize)
qed

theorem select_name_earliest_witness:
  "pin_absent (std_world no_env)
   \<and> list_ex (selectable (std_world no_env) ''instruct'' 1 (Some ''apache*'')) models
   \<and> get_model_name (std_world no_env) ''instruct'' 1 (Some ''apache*'') = Inr ''flan-t5-large-ct2-int8''
   \<and> get_model_name (std_world no_env) ''instruct'' 1 (Some ''apache*'') \<in> Inr ` name ` set models"
proof -
  let ?w = "std_world no_env"
  have m: "re_match_start ?w [(Lit CHR ''a'', False), (Lit CHR ''p'', False), (Lit CHR ''a'', False), (Lit CHR ''c'', False), (Lit CHR ''h'', False), (Lit CHR ''e'', True)] ''apache-2.0''"
     "\<not> re_match_start ?w [(Lit CHR ''a'', False), (Lit CHR ''p'', False), (Lit CHR ''a'', False), (Lit CHR ''c'', False), (Lit CHR ''h'', False), (Lit CHR ''e'', True)] ''cc-by-nc-4.0''"
    by (simp_all add: std_world_def)
  have ex: "list_ex (selectable ?w ''instruct'' 1 (Some ''apache*'')) models"
    using m by (simp add: models_def selectable_def matches_filter_def std_apache catalog_memsize)
  then have ex': "\<exists>d\<in>set models. selectable ?w ''instruct'' 1 (Some ''apache*'') d"
    by (simp add: list_ex_iff)
  from select_name_earliest[OF std_pin_absent, of "''instruct''" 1 "Some ''apache*''"] ex' std_apache m
  have a: "\<exists>i<length models. get_model_name ?w ''instruct'' 1 (Some ''apache*'') = Inr (name (models ! i))"
    and b: "get_model_name ?w ''instruct'' 1 (Some ''apache*'') = Inr ''flan-t5-large-ct2-int8''"
    by blast+
  from a have "get_model_name ?w ''instruct'' 1 (Some ''apache*'') \<in> Inr ` name ` set models"
    by (metis imageI nth_mem)
  with std_pin_absent ex b show ?thesis by blast
qed

text \<open>
  The same at the double \<open>0.774\<close> (871446527896191 / 2^50, which is \<open>774e6 / 1e9\<close>)
  under the filter \<open>mit\<close>: the descriptor of 774e6 parameters is passed over.
\<close>

lemma select_name_boundary_mit:
  "get_model_name (std_world no_env) ''instruct'' (871446527896191 / 1125899906842624)
     (Some ''mit'') = Inr ''LaMini-GPT-124M-ct2-int8''"
proof -
  have c: "re_compile (std_world no_env) ''mit''
     = Inr [(Lit CHR ''m'', False), (Lit CHR ''i'', False), (Lit CHR ''t'', False)]"
    by (simp add: std_world_def and_then_def re_atom_of_def re_other_meta_def)
  have m: "re_match_start (std_world no_env) = simple_match" by (simp add: std_world_def)
  show ?thesis
    by (simp add: get_model_name_scan[OF std_pin_absent] models_def licensematch_def c m
        catalog_memsize)
qed

lemma get_model_name_failure_state:
  "get_max_ram w s = Inr ram \<Longrightarrow> get_model_name w mt ram (license_match s) = Inl e \<Longrightarrow>
   get_model w s mt tok = (Inl e, s)"
  by (simp add: get_model_def and_then_def)

text \<open>
  Claim C5, as amended. With the pinned-name override absent and a well-formed license
  filter (absent, empty, or a pattern that compiles), \<open>get_model_name\<close> raises
  \<open>ModelException("No valid model found for ...")\<close> if and only if no descriptor of the
  catalog is selectable, and raises nothing else. A failure of the selector inside
  \<open>get_model\<close> leaves the globals as they were. In particular
  \<open>get_model_name("instruct", 0.01, None)\<close> raises the \<open>ModelException\<close>.
\<close>

theorem select_name_fails_iff:
  assumes "pin_absent w"
  shows "(filter_wellformed w lm \<longrightarrow>
            ((get_model_name w mt ram lm = Inl (ModelException (''No valid model found for '' @ mt)))
               = (\<not> (\<exists>d\<in>set models. selectable w mt ram lm d)))
          \<and> (\<forall>e. get_model_name w mt ram lm = Inl e \<longrightarrow>
                 e = ModelException (''No valid model found for '' @ mt)))
       \<and> (\<forall>s tok e. get_max_ram w s = Inr ram \<and> get_model_name w mt ram (license_match s) = Inl e
             \<longrightarrow> get_model w s mt tok = (Inl e, s))
       \<and> get_model_name w ''instruct'' (1 / 100) None
            = Inl (ModelException ''No valid model found for instruct'')"
proof (intro conjI impI allI)
  assume wf: "filter_wellformed w lm"
  show "(get_model_name w mt ram lm = Inl (ModelException (''No valid model found for '' @ mt)))
               = (\<not> (\<exists>d\<in>set models. selectable w mt ram lm d))"
    using assms scan_models_none[OF models_all_int8 wf] by (simp add: get_model_name_scan)
  fix e assume "get_model_name w mt ram lm = Inl e"
  then show "e = ModelException (''No valid model found for '' @ mt)"
    using assms scan_models_error[OF models_all_int8 wf] by (simp add: get_model_name_scan)
next
  fix s :: "('b, 'c) state" and tok e
  assume "get_max_ram w s = Inr ram \<and> get_model_name w mt ram (license_match s) = Inl e"
  then show "get_model w s mt tok = (Inl e, s)"
    by (simp add: get_model_name_failure_state)
next
  show "get_model_name w ''instruct'' (1 / 100) None
            = Inl (ModelException ''No valid model found for instruct'')"
    using assms by (simp add: get_model_name_scan models_def licensematch_def catalog_memsize)
qed

lemma std_initial_ram: "get_max_ram (std_world no_env) (initial_state (std_world no_env)) = Inr 512"
  by (simp add: get_max_ram_def initial_state_def)

theorem select_name_fails_iff_witness:
  "pin_absent (std_world no_env) \<and> filter_wellformed (std_world no_env) (Some ''apache*'')
   \<and> \<not> list_ex (selectable (std_world no_env) ''embedding'' (1 / 100) (Some ''apache*'')) models
   \<and> get_model_name (std_world no_env) ''embedding'' (1 / 100) (Some ''apache*'')
        = Inl (ModelException ''No valid model found for embedding'')
   \<and> get_model (std_world no_env) (initial_state (std_world no_env)) ''chat'' False
        = (Inl (ModelException ''No valid model found for chat''), initial_state (std_world no_env))
   \<and> get_model_name (std_world no_env) ''instruct'' (1 / 100) None
        = Inl (ModelException ''No valid model found for instruct'')"
proof -
  let ?w = "std_world no_env"
  have wf: "filter_wellformed ?w (Some ''apache*'')"
    by (simp add: filter_wellformed_def std_apache)
  have wfn: "filter_wellformed ?w None"
    by (simp add: filter_wellformed_def)
  have no: "\<not> list_ex (selectable ?w ''embedding'' (1 / 100) (Some ''apache*'')) models"
    by (simp add: models_def selectable_def catalog_memsize)
  have no': "\<not> (\<exists>d\<in>set models. selectable ?w ''embedding'' (1 / 100) (Some ''apache*'') d)"
    using no unfolding list_ex_iff .
  have "\<not> list_ex (selectable ?w ''chat'' 512 None) models"
    by (simp add: models_def selectable_def)
  then have noc: "\<not> (\<exists>d\<in>set models. selectable ?w ''chat'' 512 None d)"
    unfolding list_ex_iff .
  have lic: "license_match (initial_state ?w) = None"
    by (simp add: initial_state_def std_world_def no_env_def)
  note T = select_name_fails_iff[OF std_pin_absent]
  have a: "get_model_name ?w ''embedding'' (1 / 100) (Some ''apache*'')
        = Inl (ModelException ''No valid model found for embedding'')"
    using T[of "Some ''apache*''" "''embedding''" "1 / 100", THEN conjunct1, THEN mp, OF wf, THEN conjunct1]
      no' by simp
  have c: "get_model_name ?w ''chat'' 512 None = Inl (ModelException ''No valid model found for chat'')"
    using T[of None "''chat''" 512, THEN conjunct1, THEN mp, OF wfn, THEN conjunct1] noc by simp
  have b: "get_model ?w (initial_state ?w) ''chat'' False
        = (Inl (ModelException ''No valid model found for chat''), initial_state ?w)"
    using T[of None "''chat''" 512, THEN conjunct2, THEN conjunct1, THEN spec, THEN spec, THEN spec, THEN mp,
        of "initial_state ?w" "ModelException ''No valid model found for chat''" False]
      std_initial_ram c lic by simp
  have d: "get_model_name ?w ''instruct'' (1 / 100) None
        = Inl (ModelException ''No valid model found for instruct'')"
    by (rule T[of None "''instruct''" 1, THEN conjunct2, THEN conjunct2])
  show ?thesis
    by (intro conjI std_pin_absent wf no a b d)
qed

text \<open>
  The claim as stated fails for a filter that is not a regular expression: with the
  filter \<open>*\<close> no descriptor is selectable, and the selector raises \<open>re.error\<close>, not
  the \<open>ModelException\<close>.
\<close>

theorem select_name_fails_iff_counterexample:
  "pin_absent (std_world no_env)
   \<and> \<not> list_ex (selectable (std_world no_env) ''instruct'' 1 (Some ''*'')) models
   \<and> get_model_name (std_world no_env) ''instruct'' 1 (Some ''*'') = Inl ReError"
proof -
  have star: "re_compile (std_world no_env) ''*'' = Inl ReError"
    by (simp add: std_world_def)
  have "\<not> list_ex (selectable (std_world no_env) ''instruct'' 1 (Some ''*'')) models"
    by (simp add: models_def selectable_def matches_filter_def star catalog_memsize)
  moreover have "get_model_name (std_world no_env) ''instruct'' 1 (Some ''*'') = Inl ReError"
    by (simp add: get_model_name_scan[OF std_pin_absent] models_def licensematch_def star)
  ultimately show ?thesis using std_pin_absent by blast
qed

lemma sizes_orderedD:
  "sizes_ordered ms \<Longrightarrow> d1 \<in> set ms \<Longrightarrow> d2 \<in> set ms \<Longrightarrow>
   float_div (params d1) 1000000000 < float_div (params d2) 1000000000 \<Longrightarrow>
   params d1 \<le> params d2"
  by (simp add: sizes_ordered_def list_all_iff)

lemma models_sizes_ordered: "sizes_ordered models"
  by (simp add: sizes_ordered_def models_def catalog_memsize)

lemma scan_models_mono:
  "sizes_ordered (pre @ ms) \<Longrightarrow> b1 \<le> b2 \<Longrightarrow>
   scan_models w ms mt b1 lm = Inr n1 \<Longrightarrow> scan_models w ms mt b2 lm = Inr n2 \<Longrightarrow>
   \<exists>d1\<in>set ms. \<exists>d2\<in>set ms. name d1 = n1 \<and> name d2 = n2 \<and> params d1 \<le> params d2"
proof (induction ms arbitrary: pre)
  case Nil
  then show ?case by simp
next
  case (Cons m ms)
  from Cons.prems(3) have q: "quantization m = ''int8''"
    by (auto split: if_splits)
  from Cons.prems(3) q obtain l where l: "licensematch w lm (license m) = Inr l"
    by (cases "licensematch w lm (license m)") auto
  let ?fit1 = "tuning m = mt \<and> float_div (params m) 1000000000 < b1 \<and> l"
  let ?fit2 = "tuning m = mt \<and> float_div (params m) 1000000000 < b2 \<and> l"
  show ?case
  proof (cases ?fit1)
    case True
    with Cons.prems(2,3,4) q l have "n1 = name m" "n2 = name m" by auto
    then show ?thesis by auto
  next
    case nofit1: False
    with Cons.prems(3) q l have r1: "scan_models w ms mt b1 lm = Inr n1" by auto
    show ?thesis
    proof (cases ?fit2)
      case True
      with Cons.prems(4) q l have n2: "n2 = name m" by auto
      from scan_models_Inr[OF r1] obtain d1 where d1: "d1 \<in> set ms" "name d1 = n1"
        "selectable w mt b1 lm d1" by blast
      from True nofit1 have "b1 \<le> float_div (params m) 1000000000" by auto
      moreover from d1(3) have "float_div (params d1) 1000000000 < b1"
        by (simp add: selectable_def)
      ultimately have "float_div (params d1) 1000000000 < float_div (params m) 1000000000"
        by simp
      with sizes_orderedD[OF Cons.prems(1), of d1 m] d1(1) have "params d1 \<le> params m"
        by simp
      with d1 n2 show ?thesis by auto
    next
      case False
      with Cons.prems(4) q l have r2: "scan_models w ms mt b2 lm = Inr n2" by auto
      have "sizes_ordered ((pre @ [m]) @ ms)" using Cons.prems(1) by simp
      from Cons.IH[OF this Cons.prems(2) r1 r2] show ?thesis by auto
    qed
  qed
qed

lemma models_distinct_names: "distinct (map name models)"
  by (simp add: models_def)

lemma params_of_name: "d \<in> set models \<Longrightarrow> params_of (name d) = Some (params d)"
proof -
  assume d: "d \<in> set models"
  have "distinct (map fst (map (\<lambda>d. (name d, params d)) models))"
    using models_distinct_names by (simp add: comp_def)
  moreover have "(name d, params d) \<in> set (map (\<lambda>d. (name d, params d)) models)"
    using d by auto
  ultimately show ?thesis
    unfolding params_of_def by (rule map_of_is_SomeI)
qed

text \<open>
  Claim C9. For a fixed purpose and license filter, with the pinned-name override absent,
  if \<open>get_model_name\<close> succeeds at the budgets \<open>b1 \<le> b2\<close>, returning the names \<open>n1\<close>
  and \<open>n2\<close>, then the \<open>params\<close> of the descriptor named \<open>n2\<close> is at least the \<open>params\<close>
  of the descriptor named \<open>n1\<close>.
\<close>

theorem select_name_monotone:
  assumes "pin_absent w" and "b1 \<le> b2"
    and "get_model_name w mt b1 lm = Inr n1" and "get_model_name w mt b2 lm = Inr n2"
  shows "\<exists>p1 p2. params_of n1 = Some p1 \<and> params_of n2 = Some p2 \<and> p1 \<le> p2"
proof -
  from assms have "scan_models w models mt b1 lm = Inr n1" "scan_models w models mt b2 lm = Inr n2"
    by (simp_all add: get_model_name_scan)
  moreover have "sizes_ordered ([] @ models)" using models_sizes_ordered by simp
  ultimately obtain d1 d2 where
    "d1 \<in> set models" "d2 \<in> set models" "name d1 = n1" "name d2 = n2" "params d1 \<le> params d2"
    using scan_models_mono[of "[]" models b1 b2 w mt lm n1 n2] assms(2) by blast
  then show ?thesis using params_of_name by blast
qed

lemma std_select_small:
  "get_model_name (std_world no_env) ''instruct'' (2 / 5) None = Inr ''LaMini-Flan-T5-248M-ct2-int8''"
  by (simp add: get_model_name_scan[OF std_pin_absent] models_def licensematch_def catalog_memsize)

lemma std_select_large:
  "get_model_name (std_world no_env) ''instruct'' 1 None = Inr ''LaMini-Flan-T5-783M-ct2-int8''"
  by (simp add: get_model_name_scan[OF std_pin_absent] models_def licensematch_def catalog_memsize)

theorem select_name_monotone_witness:
  "pin_absent (std_world no_env) \<and> (2 / 5 :: rat) \<le> 1
   \<and> get_model_name (std_world no_env) ''instruct'' (2 / 5) None = Inr ''LaMini-Flan-T5-248M-ct2-int8''
   \<and> get_model_name (std_world no_env) ''instruct'' 1 None = Inr ''LaMini-Flan-T5-783M-ct2-int8''
   \<and> (\<exists>p1 p2. params_of ''LaMini-Flan-T5-248M-ct2-int8'' = Some p1
         \<and> params_of ''LaMini-Flan-T5-783M-ct2-int8'' = Some p2 \<and> p1 \<le> p2)"
proof -
  have le: "(2 / 5 :: rat) \<le> 1" by simp
  from select_name_monotone[OF std_pin_absent le std_select_small std_select_large]
  show ?thesis using std_pin_absent le std_select_small std_select_large by blast
qed

lemma scan_models_no_assertion:
  "all_int8 ms \<Longrightarrow> \<forall>p. lm = Some p \<longrightarrow> re_compile w p \<noteq> Inl AssertionError \<Longrightarrow>
   scan_models w ms mt ram lm \<noteq> Inl AssertionError"
  by (induction ms)
     (auto simp: all_int8_def licensematch_def split: sum.splits option.splits if_splits)

text \<open>
  Claim C10. Every descriptor of the catalog has quantization \<open>int8\<close>, so the \<open>assert\<close>
  of the loop never fails: for every purpose, budget and license filter
  \<open>get_model_name\<close> does not end in \<open>AssertionError\<close> (provided \<open>re\<close> itself does not
  raise one while compiling the filter).
\<close>

theorem assertion_never_fails:
  assumes "\<forall>p. lm = Some p \<longrightarrow> re_compile w p \<noteq> Inl AssertionError"
  shows "all_int8 models \<and> get_model_name w mt ram lm \<noteq> Inl AssertionError"
  using assms scan_models_no_assertion[OF models_all_int8, of lm w mt ram] models_all_int8
  by (auto simp: get_model_name_def split: option.splits)

theorem assertion_never_fails_witness:
  "re_compile (std_world no_env) ''apache*'' \<noteq> Inl AssertionError
   \<and> all_int8 models
   \<and> get_model_name (std_world no_env) ''instruct'' 1 (Some ''apache*'') \<noteq> Inl AssertionError"
proof -
  have c: "re_compile (std_world no_env) ''apache*'' \<noteq> Inl AssertionError"
    by (simp add: std_apache)
  then have "\<forall>p. Some ''apache*'' = Some p \<longrightarrow> re_compile (std_world no_env) p \<noteq> Inl AssertionError"
    by simp
  from assertion_never_fails[OF this] c show ?thesis by blast
qed

section \<open>The budget configuration: proofs\<close>

lemma rstrip_b_replicate: "rstrip_b (xs @ replicate k CHR ''b'') = rstrip_b xs"
proof -
  have "dropWhile (\<lambda>c. c = CHR ''b'') (replicate k CHR ''b'' @ ys) = dropWhile (\<lambda>c. c = CHR ''b'') ys"
    for ys :: string
    by (induction k) simp_all
  then show ?thesis by (simp add: rstrip_b_def)
qed

lemma rstrip_b_keeps: "xs \<noteq> [] \<Longrightarrow> last xs \<noteq> CHR ''b'' \<Longrightarrow> rstrip_b xs = xs"
  by (cases xs rule: rev_cases) (simp_all add: rstrip_b_def)

lemma rstrip_b_Nil: "rstrip_b [] = []"
  by (simp add: rstrip_b_def)

lemma rstrip_b_decompose: "\<exists>k. xs = rstrip_b xs @ replicate k CHR ''b''"
proof -
  let ?P = "\<lambda>c. c = CHR ''b''"
  have "takeWhile ?P ys = replicate (length (takeWhile ?P ys)) CHR ''b''" for ys :: string
    by (induction ys) simp_all
  then have "rev (takeWhile ?P (rev xs)) = replicate (length (takeWhile ?P (rev xs))) CHR ''b''"
    by (metis rev_replicate)
  moreover have "xs = rev (dropWhile ?P (rev xs)) @ rev (takeWhile ?P (rev xs))"
    by (metis rev_append rev_rev_ident takeWhile_dropWhile_id)
  ultimately show ?thesis unfolding rstrip_b_def by metis
qed

lemma convert_unit_g:
  "str_lower str = num @ ''g'' @ replicate k CHR ''b'' \<Longrightarrow>
   convert_to_gb w (PyStr str) = and_then (py_float w num) (\<lambda>y. Inr (float_mul y 1))"
proof -
  assume a: "str_lower str = num @ ''g'' @ replicate k CHR ''b''"
  have "rstrip_b (str_lower str) = num @ ''g''"
    using rstrip_b_replicate[of "num @ ''g''" k] rstrip_b_keeps[of "num @ ''g''"] a by simp
  then show ?thesis
    by (simp add: convert_to_gb_def multipliers_def)
qed

lemma convert_unit_m:
  "str_lower str = num @ ''m'' @ replicate k CHR ''b'' \<Longrightarrow>
   convert_to_gb w (PyStr str) = and_then (py_float w num) (\<lambda>y. Inr (float_mul y (1 / 1024)))"
proof -
  assume a: "str_lower str = num @ ''m'' @ replicate k CHR ''b''"
  have "rstrip_b (str_lower str) = num @ ''m''"
    using rstrip_b_replicate[of "num @ ''m''" k] rstrip_b_keeps[of "num @ ''m''"] a by simp
  then show ?thesis
    by (simp add: convert_to_gb_def multipliers_def)
qed

lemma convert_no_unit:
  "str_lower str = num @ replicate k CHR ''b'' \<Longrightarrow> num \<noteq> [] \<Longrightarrow>
   last num \<notin> {CHR ''b'', CHR ''g'', CHR ''m''} \<Longrightarrow>
   convert_to_gb w (PyStr str) = py_float w num"
proof -
  assume a: "str_lower str = num @ replicate k CHR ''b''" and n: "num \<noteq> []"
    and l: "last num \<notin> {CHR ''b'', CHR ''g'', CHR ''m''}"
  have "rstrip_b (str_lower str) = num"
    using rstrip_b_replicate[of num k] rstrip_b_keeps[of num] a n l by simp
  then show ?thesis using n l
    by (simp add: convert_to_gb_def multipliers_def)
qed

text \<open>
  When nothing but \<open>b\<close>s is given, \<open>space[-1]\<close> indexes the empty string: the
  exception is \<open>IndexError\<close>, not one of \<open>float\<close>.
\<close>

lemma convert_only_b:
  "str_lower str = replicate k CHR ''b'' \<Longrightarrow> convert_to_gb w (PyStr str) = Inl IndexError"
  using rstrip_b_replicate[of "[]" k] by (simp add: convert_to_gb_def rstrip_b_Nil)

lemma convert_accepted_shape:
  assumes "convert_to_gb w (PyStr str) = Inr v"
  shows "\<exists>num k. (str_lower str = num @ replicate k CHR ''b'' \<and> py_float w num = Inr v)
           \<or> (str_lower str = num @ ''g'' @ replicate k CHR ''b''
                \<and> (\<exists>x. py_float w num = Inr x \<and> v = float_mul x 1))
           \<or> (str_lower str = num @ ''m'' @ replicate k CHR ''b''
                \<and> (\<exists>x. py_float w num = Inr x \<and> v = float_mul x (1 / 1024)))"
proof -
  let ?t = "rstrip_b (str_lower str)"
  obtain k where k: "str_lower str = ?t @ replicate k CHR ''b''"
    using rstrip_b_decompose by blast
  from assms have ne: "?t \<noteq> []"
    by (auto simp: convert_to_gb_def Let_def split: if_splits)
  then have bl: "?t = butlast ?t @ [last ?t]" by simp
  consider (g) "last ?t = CHR ''g''" | (m) "last ?t = CHR ''m''"
    | (none) "last ?t \<noteq> CHR ''g''" "last ?t \<noteq> CHR ''m''" by blast
  then show ?thesis
  proof cases
    case g
    with assms ne have "\<exists>x. py_float w (butlast ?t) = Inr x \<and> v = float_mul x 1"
      by (auto simp: convert_to_gb_def multipliers_def and_then_def split: sum.splits)
    moreover from k bl g have "str_lower str = butlast ?t @ ''g'' @ replicate k CHR ''b''"
      by (metis append.assoc append_Cons append_Nil)
    ultimately show ?thesis by blast
  next
    case m
    with assms ne have "\<exists>x. py_float w (butlast ?t) = Inr x \<and> v = float_mul x (1 / 1024)"
      by (auto simp: convert_to_gb_def multipliers_def and_then_def split: sum.splits)
    moreover from k bl m have "str_lower str = butlast ?t @ ''m'' @ replicate k CHR ''b''"
      by (metis append.assoc append_Cons append_Nil)
    ultimately show ?thesis by blast
  next
    case none
    with assms ne have "py_float w ?t = Inr v"
      by (simp add: convert_to_gb_def multipliers_def)
    with k show ?thesis by blast
  qed
qed

lemma convert_int:
  "convert_to_gb w (PyInt n) =
     (if 2 ^ 1024 \<le> \<bar>double_round (of_int n)\<bar> then Inl OverflowError
      else Inr (double_round (of_int n)))"
  by (simp add: convert_to_gb_def float_of_int_def Let_def)

lemma convert_small_int: "\<bar>n\<bar> \<le> 2 ^ 53 \<Longrightarrow> convert_to_gb w (PyInt n) = Inr (of_int n)"
  by (simp add: convert_to_gb_def float_of_int_exact)

lemma set_max_ram_Inr:
  "convert_to_gb w v = Inr x \<Longrightarrow> set_max_ram w s v = (Inr x, s\<lparr>max_ram := x\<rparr>)"
  by (simp add: set_max_ram_def)

lemma set_max_ram_Inl:
  "convert_to_gb w v = Inl e \<Longrightarrow> set_max_ram w s v = (Inl e, s)"
  by (simp add: set_max_ram_def)

lemma str_lower_examples:
  "str_lower ''4G'' = ''4g''" "str_lower ''256mb'' = ''256mb''" "str_lower ''256M'' = ''256m''"
  "str_lower ''.5'' = ''.5''" "str_lower ''4b'' = ''4b''" "str_lower ''4gbb'' = ''4gbb''"
  by (simp_all add: str_lower_def lower_char_def)

lemma float_mul_examples: "float_mul 4 1 = 4" "float_mul 256 (1 / 1024) = 1 / 4"
  by code_simp+

text \<open>
  Claim C7, as amended. \<open>set_max_ram\<close> stores and returns what \<open>convert_to_gb\<close> computes,
  and leaves the budget as it was when \<open>convert_to_gb\<close> raises. A number goes through
  \<open>float\<close>: a float is taken as it is; an int of magnitude up to \<open>2 ^ 53\<close> is taken
  exactly, a larger one is rounded to the nearest double, and one that rounds beyond the
  largest double raises \<open>OverflowError\<close>. A string is lower-cased and all its trailing
  \<open>b\<close> are dropped; if what is left ends in \<open>g\<close>, what precedes is parsed by \<open>float\<close>
  as gigabytes, if it ends in \<open>m\<close>, as 1/1024 gigabytes (the float product), and if it
  ends in another character the whole of it is parsed as gigabytes; the call fails as
  \<open>float\<close> fails on that number. Every string that is accepted has one of these three
  shapes. \<open>"4G"\<close> yields 4, \<open>"256mb"\<close> and \<open>"256M"\<close> yield 1/4, \<open>".5"\<close> yields 1/2
  (in every world whose \<open>float\<close> reads \<open>4\<close>, \<open>256\<close> and \<open>.5\<close> so), and the number
  16 yields 16.
\<close>

theorem set_budget_parses:
  "(\<forall>v y. convert_to_gb w v = Inr y \<longrightarrow> set_max_ram w s v = (Inr y, s\<lparr>max_ram := y\<rparr>))
   \<and> (\<forall>v e. convert_to_gb w v = Inl e \<longrightarrow> set_max_ram w s v = (Inl e, s))
   \<and> (\<forall>x. convert_to_gb w (PyFloat x) = Inr x)
   \<and> (\<forall>n. \<bar>n\<bar> \<le> 2 ^ 53 \<longrightarrow> convert_to_gb w (PyInt n) = Inr (of_int n))
   \<and> (\<forall>n. convert_to_gb w (PyInt n) =
          (if 2 ^ 1024 \<le> \<bar>double_round (of_int n)\<bar> then Inl OverflowError
           else Inr (double_round (of_int n))))
   \<and> (\<forall>str num k. str_lower str = num @ ''g'' @ replicate k CHR ''b'' \<longrightarrow>
          convert_to_gb w (PyStr str) = and_then (py_float w num) (\<lambda>y. Inr (float_mul y 1)))
   \<and> (\<forall>str num k. str_lower str = num @ ''m'' @ replicate k CHR ''b'' \<longrightarrow>
          convert_to_gb w (PyStr str)
            = and_then (py_float w num) (\<lambda>y. Inr (float_mul y (1 / 1024))))
   \<and> (\<forall>str num k. str_lower str = num @ replicate k CHR ''b'' \<and> num \<noteq> []
          \<and> last num \<notin> {CHR ''b'', CHR ''g'', CHR ''m''} \<longrightarrow>
          convert_to_gb w (PyStr str) = py_float w num)
   \<and> (\<forall>str y. convert_to_gb w (PyStr str) = Inr y \<longrightarrow>
          (\<exists>num k. (str_lower str = num @ replicate k CHR ''b'' \<and> py_float w num = Inr y)
             \<or> (str_lower str = num @ ''g'' @ replicate k CHR ''b''
                  \<and> (\<exists>z. py_float w num = Inr z \<and> y = float_mul z 1))
             \<or> (str_lower str = num @ ''m'' @ replicate k CHR ''b''
                  \<and> (\<exists>z. py_float w num = Inr z \<and> y = float_mul z (1 / 1024)))))
   \<and> (py_float w ''4'' = Inr 4 \<longrightarrow> convert_to_gb w (PyStr ''4G'') = Inr 4)
   \<and> (py_float w ''256'' = Inr 256 \<longrightarrow>
          convert_to_gb w (PyStr ''256mb'') = Inr (1 / 4) \<and> convert_to_gb w (PyStr ''256M'') = Inr (1 / 4))
   \<and> (py_float w ''.5'' = Inr (1 / 2) \<longrightarrow> convert_to_gb w (PyStr ''.5'') = Inr (1 / 2))
   \<and> convert_to_gb w (PyInt 16) = Inr 16"
proof (intro conjI allI impI)
  fix x show "convert_to_gb w (PyFloat x) = Inr x"
    by (simp add: convert_to_gb_def)
next
  show "convert_to_gb w (PyInt 16) = Inr 16"
    using convert_small_int[of 16 w] by simp
next
  fix n :: int assume "\<bar>n\<bar> \<le> 2 ^ 53"
  then show "convert_to_gb w (PyInt n) = Inr (of_int n)" by (rule convert_small_int)
next
  fix n show "convert_to_gb w (PyInt n) =
          (if 2 ^ 1024 \<le> \<bar>double_round (of_int n)\<bar> then Inl OverflowError
           else Inr (double_round (of_int n)))"
    by (rule convert_int)
next
  fix v y assume "convert_to_gb w v = Inr y"
  then show "set_max_ram w s v = (Inr y, s\<lparr>max_ram := y\<rparr>)" by (rule set_max_ram_Inr)
next
  fix v e assume "convert_to_gb w v = Inl e"
  then show "set_max_ram w s v = (Inl e, s)" by (rule set_max_ram_Inl)
next
  fix str num k assume "str_lower str = num @ ''g'' @ replicate k CHR ''b''"
  then show "convert_to_gb w (PyStr str) = and_then (py_float w num) (\<lambda>y. Inr (float_mul y 1))"
    by (rule convert_unit_g)
next
  fix str num k assume "str_lower str = num @ ''m'' @ replicate k CHR ''b''"
  then show "convert_to_gb w (PyStr str)
            = and_then (py_float w num) (\<lambda>y. Inr (float_mul y (1 / 1024)))"
    by (rule convert_unit_m)
next
  fix str num k
  assume "str_lower str = num @ replicate k CHR ''b'' \<and> num \<noteq> []
          \<and> last num \<notin> {CHR ''b'', CHR ''g'', CHR ''m''}"
  then show "convert_to_gb w (PyStr str) = py_float w num"
    using convert_no_unit by blast
next
  fix str y assume "convert_to_gb w (PyStr str) = Inr y"
  then show "\<exists>num k. (str_lower str = num @ replicate k CHR ''b'' \<and> py_float w num = Inr y)
             \<or> (str_lower str = num @ ''g'' @ replicate k CHR ''b''
                  \<and> (\<exists>z. py_float w num = Inr z \<and> y = float_mul z 1))
             \<or> (str_lower str = num @ ''m'' @ replicate k CHR ''b''
                  \<and> (\<exists>z. py_float w num = Inr z \<and> y = float_mul z (1 / 1024)))"
    by (rule convert_accepted_shape)
next
  assume "py_float w ''4'' = Inr 4"
  then show "convert_to_gb w (PyStr ''4G'') = Inr 4"
    using convert_unit_g[of "''4G''" "''4''" 0 w]
    by (simp add: str_lower_examples and_then_def float_mul_examples)
next
  assume f: "py_float w ''256'' = Inr 256"
  then show "convert_to_gb w (PyStr ''256mb'') = Inr (1 / 4)"
    using convert_unit_m[of "''256mb''" "''256''" 1 w]
    by (simp add: str_lower_examples and_then_def float_mul_examples)
  from f show "convert_to_gb w (PyStr ''256M'') = Inr (1 / 4)"
    using convert_unit_m[of "''256M''" "''256''" 0 w]
    by (simp add: str_lower_examples and_then_def float_mul_examples)
next
  assume "py_float w ''.5'' = Inr (1 / 2)"
  then show "convert_to_gb w (PyStr ''.5'') = Inr (1 / 2)"
    using convert_no_unit[of "''.5''" "''.5''" 0 w] by (simp add: str_lower_examples)
qed

lemma dec_float_examples:
  "dec_float ''4'' = Inr 4" "dec_float ''256'' = Inr 256" "dec_float ''.5'' = Inr (1 / 2)"
  "dec_float ''4b'' = Inl ValueError" "dec_float [] = Inl ValueError"
  "dec_float ''4x'' = Inl ValueError"
  by code_simp+

lemma std_py_float: "py_float (std_world env) = dec_float"
  by (simp add: std_world_def)

lemma float_of_int_overflow: "float_of_int (2 ^ 1024) = Inl OverflowError"
  using double_round_pow by (simp add: float_of_int_def)

theorem set_budget_parses_witness:
  "set_max_ram (std_world no_env) (initial_state (std_world no_env)) (PyStr ''4G'')
      = (Inr 4, (initial_state (std_world no_env))\<lparr>max_ram := 4\<rparr>)
   \<and> set_max_ram (std_world no_env) (initial_state (std_world no_env)) (PyStr ''4x'')
      = (Inl ValueError, initial_state (std_world no_env))
   \<and> set_max_ram (std_world no_env) (initial_state (std_world no_env)) (PyInt 16)
      = (Inr 16, (initial_state (std_world no_env))\<lparr>max_ram := 16\<rparr>)
   \<and> set_max_ram (std_world no_env) (initial_state (std_world no_env)) (PyInt (2 ^ 1024))
      = (Inl OverflowError, initial_state (std_world no_env))
   \<and> convert_to_gb (std_world no_env) (PyStr ''256mb'') = Inr (1 / 4)
   \<and> convert_to_gb (std_world no_env) (PyStr ''256M'') = Inr (1 / 4)
   \<and> convert_to_gb (std_world no_env) (PyStr ''.5'') = Inr (1 / 2)
   \<and> convert_to_gb (std_world no_env) (PyStr ''4gbb'') = Inr 4"
proof -
  let ?w = "std_world no_env" and ?s = "initial_state (std_world no_env)"
  note T = set_budget_parses[of ?w ?s]
  note f = dec_float_examples[folded std_py_float[of no_env]]
  have g4: "convert_to_gb ?w (PyStr ''4G'') = Inr 4"
    using T f by blast
  have a: "set_max_ram ?w ?s (PyStr ''4G'') = (Inr 4, ?s\<lparr>max_ram := 4\<rparr>)"
    using T g4 by blast
  have "str_lower ''4x'' = ''4x'' @ replicate 0 CHR ''b'' \<and> ''4x'' \<noteq> []
          \<and> last ''4x'' \<notin> {CHR ''b'', CHR ''g'', CHR ''m''}"
    by (simp add: str_lower_def lower_char_def)
  with T have "convert_to_gb ?w (PyStr ''4x'') = py_float ?w ''4x''" by blast
  with f have "convert_to_gb ?w (PyStr ''4x'') = Inl ValueError" by simp
  with T have b: "set_max_ram ?w ?s (PyStr ''4x'') = (Inl ValueError, ?s)" by blast
  have "convert_to_gb ?w (PyInt 16) = Inr 16" using T by blast
  with T have i16: "set_max_ram ?w ?s (PyInt 16) = (Inr 16, ?s\<lparr>max_ram := 16\<rparr>)" by blast
  have "convert_to_gb ?w (PyInt (2 ^ 1024)) = Inl OverflowError"
    by (simp only: convert_to_gb_def pyval.case float_of_int_overflow)
  with T have big: "set_max_ram ?w ?s (PyInt (2 ^ 1024)) = (Inl OverflowError, ?s)" by blast
  have c: "convert_to_gb ?w (PyStr ''256mb'') = Inr (1 / 4)"
    "convert_to_gb ?w (PyStr ''256M'') = Inr (1 / 4)"
    "convert_to_gb ?w (PyStr ''.5'') = Inr (1 / 2)"
    using T f by blast+
  have "str_lower ''4gbb'' = ''4'' @ ''g'' @ replicate 2 CHR ''b''"
    by (simp add: str_lower_examples numeral_2_eq_2)
  with T have "convert_to_gb ?w (PyStr ''4gbb'')
      = and_then (py_float ?w ''4'') (\<lambda>y. Inr (float_mul y 1))" by blast
  with f have d: "convert_to_gb ?w (PyStr ''4gbb'') = Inr 4"
    by (simp add: and_then_def float_mul_examples)
  show ?thesis
    by (intro conjI a b i16 big c d)
qed

text \<open>
  The claim as stated fails at \<open>"4b"\<close>: it is not a number followed by a recognized
  suffix, and \<open>set_max_ram\<close> accepts it as 4 gigabytes. It also fails at the raw number
  \<open>2 ** 1024\<close>, which \<open>float\<close> rejects with \<open>OverflowError\<close>.
\<close>

theorem set_budget_parses_counterexample:
  "\<not> spec_size_string (std_world no_env) ''4b''
   \<and> set_max_ram (std_world no_env) (initial_state (std_world no_env)) (PyStr ''4b'')
      = (Inr 4, (initial_state (std_world no_env))\<lparr>max_ram := 4\<rparr>)
   \<and> set_max_ram (std_world no_env) (initial_state (std_world no_env)) (PyInt (2 ^ 1024))
      = (Inl OverflowError, initial_state (std_world no_env))"
proof -
  have "convert_to_gb (std_world no_env) (PyInt (2 ^ 1024)) = Inl OverflowError"
    by (simp only: convert_to_gb_def pyval.case float_of_int_overflow)
  then have big: "set_max_ram (std_world no_env) (initial_state (std_world no_env)) (PyInt (2 ^ 1024))
      = (Inl OverflowError, initial_state (std_world no_env))"
    by (rule set_max_ram_Inl)
  have "\<not> spec_size_string (std_world no_env) ''4b''"
    by (simp add: spec_size_string_def recognized_suffixes_def str_lower_def lower_char_def
        std_py_float dec_float_examples)
  moreover have "convert_to_gb (std_world no_env) (PyStr ''4b'') = Inr 4"
    using convert_no_unit[of "''4b''" "''4''" 1 "std_world no_env"]
    by (simp add: str_lower_examples std_py_float dec_float_examples)
  ultimately show ?thesis using big by (simp add: set_max_ram_def)
qed

text \<open>
  The layers of \<open>get_max_ram\<close>, from a state whose \<open>max_ram\<close> is falsy (zero): a tier
  name in \<open>LANGUAGEMODELS_SIZE\<close>, then that value as a size string, then 0.40. A
  nonzero \<open>max_ram\<close> is returned before any of them is looked at.
\<close>

lemma get_max_ram_override: "max_ram s \<noteq> 0 \<Longrightarrow> get_max_ram w s = Inr (max_ram s)"
  by (simp add: get_max_ram_def)

lemma get_max_ram_default:
  "max_ram s = 0 \<Longrightarrow> os_environ_get w ''LANGUAGEMODELS_SIZE'' \<in> {None, Some []} \<Longrightarrow>
   get_max_ram w s = Inr (double_round (2 / 5))"
  by (auto simp: get_max_ram_def)

lemma get_max_ram_tier:
  "max_ram s = 0 \<Longrightarrow> os_environ_get w ''LANGUAGEMODELS_SIZE'' = Some env \<Longrightarrow>
   map_of [(''small'', double_round (1 / 5)), (''base'', double_round (2 / 5)),
           (''large'', 1), (''xl'', 4), (''xxl'', 16)]
     (str_lower env) = Some x \<Longrightarrow>
   get_max_ram w s = Inr x"
  by (auto simp: get_max_ram_def str_lower_def split: if_splits)

lemma get_max_ram_raw:
  "max_ram s = 0 \<Longrightarrow> os_environ_get w ''LANGUAGEMODELS_SIZE'' = Some env \<Longrightarrow> env \<noteq> [] \<Longrightarrow>
   str_lower env \<notin> {''small'', ''base'', ''large'', ''xl'', ''xxl''} \<Longrightarrow>
   get_max_ram w s = convert_to_gb w (PyStr (str_lower env))"
  by (simp add: get_max_ram_def)

text \<open>
  Claim C2. The claim has \<open>get_max_ram()\<close> return 0.40 when \<open>set_max_ram\<close> has never
  been called and no environment value is set. The module initialises \<open>max_ram\<close> to 512
  (line 9), which is truthy: in the initial state \<open>get_max_ram\<close> returns 512 in every
  world, whatever the environment holds, and never reaches the tiers or the default
  (neither 2/5 nor the double \<open>0.40\<close>).
\<close>

theorem get_max_ram_initial:
  "get_max_ram w (initial_state w) = Inr 512
   \<and> get_max_ram (std_world no_env) (initial_state (std_world no_env)) \<noteq> Inr (2 / 5)
   \<and> get_max_ram (std_world no_env) (initial_state (std_world no_env))
        \<noteq> Inr (double_round (2 / 5))"
  by (simp add: get_max_ram_def initial_state_def double_round_literals)

section \<open>The cache: proofs\<close>

lemma name_branch_elsewhere:
  "list_all (\<lambda>d. name d = ''flan-alpaca-gpt4-xl-ct2-int8''
      \<or> Some (name_branch (name d)) = prescribed_class (architecture d)) models"
  by code_simp

lemma std_lower_gpt4: "str_lower ''flan-alpaca-gpt4-xl-ct2-int8'' = ''flan-alpaca-gpt4-xl-ct2-int8''"
  by (simp add: str_lower_def lower_char_def)

lemma name_branch_gpt4: "name_branch ''flan-alpaca-gpt4-xl-ct2-int8'' = Generator"
  by (simp add: name_branch_def std_lower_gpt4)

text \<open>
  Claim C4. The claim has the branch \<open>get_model\<close> takes for a descriptor's name agree
  with the descriptor's architecture tag, for every descriptor of the catalog. It fails
  for \<open>flan-alpaca-gpt4-xl-ct2-int8\<close>: its tag is \<open>encoder-decoder-transformer\<close>, for
  which a Translator is prescribed, and its name contains \<open>gpt\<close>, so \<open>get_model\<close> takes
  the branch that downloads \<open>vocabulary.json\<close> and constructs a Generator. The name is
  reached with \<open>LANGUAGEMODELS_INSTRUCT_MODEL\<close> set to it. (For the thirteen other
  descriptors the branch is the prescribed one: lemma \<open>name_branch_elsewhere\<close>.)
\<close>

theorem name_dispatch_gpt4_mismatch:
  "architecture_of ''flan-alpaca-gpt4-xl-ct2-int8'' = Some ''encoder-decoder-transformer''
   \<and> prescribed_class ''encoder-decoder-transformer'' = Some Translator
   \<and> name_branch ''flan-alpaca-gpt4-xl-ct2-int8'' = Generator
   \<and> fst (get_model (std_world (pin_env ''flan-alpaca-gpt4-xl-ct2-int8''))
            (initial_state (std_world (pin_env ''flan-alpaca-gpt4-xl-ct2-int8''))) ''instruct'' False)
       = Inr (\<lparr>tok_source = ''jncraton/flan-alpaca-gpt4-xl-ct2-int8'', padding = True, truncation = True\<rparr>,
              Some \<lparr>cls = Generator, model_dir = ''/hub/jncraton/flan-alpaca-gpt4-xl-ct2-int8'',
                    loaded = True\<rparr>)"
proof -
  let ?n = "''flan-alpaca-gpt4-xl-ct2-int8''"
  let ?w = "std_world (pin_env ?n)"
  have a: "architecture_of ?n = Some ''encoder-decoder-transformer''"
    by (simp add: architecture_of_def models_def)
  have b: "prescribed_class ''encoder-decoder-transformer'' = Some Translator"
    by (simp add: prescribed_class_def)
  have r: "get_max_ram ?w (initial_state ?w) = Inr 512"
    by (simp add: get_max_ram_def initial_state_def)
  have n: "get_model_name ?w ''instruct'' 512 (license_match (initial_state ?w)) = Inr ?n"
    by (simp add: get_model_name_def std_world_def pin_env_def)
  have e: "eviction_pass ?w 512 False ?n (modelcache (initial_state ?w)) = (None, [])"
    by (simp add: eviction_pass_def initial_state_def)
  have be: "build_entry ?w ?n False
     = Inr (\<lparr>tok_source = ''jncraton/flan-alpaca-gpt4-xl-ct2-int8'', padding = True, truncation = True\<rparr>,
              Some \<lparr>cls = Generator, model_dir = ''/hub/jncraton/flan-alpaca-gpt4-xl-ct2-int8'',
                    loaded = True\<rparr>)"
    by (simp add: build_entry_def name_branch_gpt4 and_then_def construct_unless_def std_world_def Let_def)
  have "fst (get_model ?w (initial_state ?w) ''instruct'' False)
       = Inr (\<lparr>tok_source = ''jncraton/flan-alpaca-gpt4-xl-ct2-int8'', padding = True, truncation = True\<rparr>,
              Some \<lparr>cls = Generator, model_dir = ''/hub/jncraton/flan-alpaca-gpt4-xl-ct2-int8'',
                    loaded = True\<rparr>)"
    by (simp add: get_model_def r n e be load_or_reload_def and_then_def)
  with a b name_branch_gpt4 show ?thesis by blast
qed



lemma try_unload_not_attribute: "try_unload w m \<noteq> Inl AttributeError"
  by (auto simp: try_unload_def split: option.splits sum.splits)


lemma try_load_None: "try_load w None = Inr None"
  by (simp add: try_load_def call_method_def)

lemma try_load_Some:
  "try_load w (Some h) =
     (case load_model w h of
        Inl e \<Rightarrow> if e = AttributeError then Inr (Some h) else Inl e
      | Inr h' \<Rightarrow> Inr (Some h'))"
  by (simp add: try_load_def call_method_def and_then_def split: sum.splits)

lemma unload_others_keys: "map fst (snd (unload_others w n c)) = map fst c"
proof (induction c)
  case Nil
  then show ?case by simp
next
  case (Cons kv c)
  obtain k t m where kv: "kv = (k, (t, m))" by (cases kv) auto
  show ?case using Cons.IH
    by (auto simp: kv split: sum.splits prod.splits)
qed

lemma unload_others_same_name: "map_of (snd (unload_others w n c)) n = map_of c n"
proof (induction c)
  case Nil
  then show ?case by simp
next
  case (Cons kv c)
  obtain k t m where kv: "kv = (k, (t, m))" by (cases kv) auto
  show ?case using Cons.IH
    by (auto simp: kv split: sum.splits prod.splits)
qed







lemma reload_raises_other:
  "map_of c n = Some (t, Some h) \<Longrightarrow> load_model w h = Inl e \<Longrightarrow> e \<noteq> AttributeError \<Longrightarrow>
   load_or_reload w n False c = (Some e, c)"
  by (simp add: load_or_reload_def try_load_Some)

lemma eviction_pass_keys: "map fst (snd (eviction_pass w ram tok n c)) = map fst c"
  by (simp add: eviction_pass_def unload_others_keys)

lemma eviction_pass_same_name: "map_of (snd (eviction_pass w ram tok n c)) n = map_of c n"
  by (simp add: eviction_pass_def unload_others_same_name)

lemma map_of_None_keys: "(map_of c n = None) = (n \<notin> set (map fst c))"
  by (simp add: map_of_eq_None_iff)

lemma load_or_reload_keys:
  "\<exists>ks. map fst (snd (load_or_reload w n tok c)) = map fst c @ ks
        \<and> (distinct (map fst c) \<longrightarrow> distinct (map fst c @ ks))"
proof (cases "map_of c n")
  case None
  then have notin: "n \<notin> set (map fst c)" by (simp add: map_of_None_keys)
  show ?thesis
  proof (cases "build_entry w n tok")
    case (Inl e)
    with None show ?thesis by (simp add: load_or_reload_def)
  next
    case (Inr entry)
    with None notin have "map fst (snd (load_or_reload w n tok c)) = map fst c @ [n]"
      by (simp add: load_or_reload_def AList.update_keys)
    with notin show ?thesis by auto
  qed
next
  case (Some entry)
  then have isin: "n \<in> set (map fst c)"
    using map_of_None_keys[of c n] by simp
  obtain t m where entry: "entry = (t, m)" by (cases entry) auto
  have "map fst (snd (load_or_reload w n tok c)) = map fst c"
    using Some isin
    by (auto simp: load_or_reload_def entry AList.update_keys split: sum.splits)
  then show ?thesis by simp
qed

lemma load_or_reload_lookup:
  "load_or_reload w n tok c = (None, c') \<Longrightarrow> map_of c' n \<noteq> None"
  by (auto simp: load_or_reload_def AList.update_conv' split: option.splits sum.splits if_splits)

lemma get_model_unfold:
  "resolved_name w s mt = Inr n \<Longrightarrow> \<exists>ram. get_max_ram w s = Inr ram \<and>
   get_model w s mt tok =
     (case eviction_pass w ram tok n (modelcache s) of
        (Some e, c1) \<Rightarrow> (Inl e, s\<lparr>modelcache := c1\<rparr>)
      | (None, c1) \<Rightarrow>
          (case load_or_reload w n tok c1 of
             (Some e, c2) \<Rightarrow> (Inl e, s\<lparr>modelcache := c2\<rparr>)
           | (None, c2) \<Rightarrow>
               (case map_of c2 n of
                  None \<Rightarrow> (Inl KeyError, s\<lparr>modelcache := c2\<rparr>)
                | Some entry \<Rightarrow> (Inr entry, s\<lparr>modelcache := c2\<rparr>))))"
  by (cases "get_max_ram w s") (auto simp: resolved_name_def get_model_def and_then_def)

lemma get_model_unresolved:
  "resolved_name w s mt = Inl e \<Longrightarrow> get_model w s mt tok = (Inl e, s)"
  by (simp add: resolved_name_def get_model_def)

lemma get_model_step:
  assumes "get_model w s mt tok = (r, s')"
  shows "max_ram s' = max_ram s \<and> license_match s' = license_match s
     \<and> (\<exists>ks. cache_keys s' = cache_keys s @ ks
            \<and> (distinct (cache_keys s) \<longrightarrow> distinct (cache_keys s')))
     \<and> (\<forall>entry. r = Inr entry \<longrightarrow>
            (\<exists>n. resolved_name w s mt = Inr n \<and> map_of (modelcache s') n = Some entry))"
proof (cases "resolved_name w s mt")
  case (Inl e)
  with assms show ?thesis by (auto simp: get_model_unresolved)
next
  case (Inr n)
  from get_model_unfold[OF Inr, of tok] obtain ram where
    gm: "get_model w s mt tok =
     (case eviction_pass w ram tok n (modelcache s) of
        (Some e, c1) \<Rightarrow> (Inl e, s\<lparr>modelcache := c1\<rparr>)
      | (None, c1) \<Rightarrow>
          (case load_or_reload w n tok c1 of
             (Some e, c2) \<Rightarrow> (Inl e, s\<lparr>modelcache := c2\<rparr>)
           | (None, c2) \<Rightarrow>
               (case map_of c2 n of
                  None \<Rightarrow> (Inl KeyError, s\<lparr>modelcache := c2\<rparr>)
                | Some entry \<Rightarrow> (Inr entry, s\<lparr>modelcache := c2\<rparr>))))"
    by blast
  obtain x c1 where ev: "eviction_pass w ram tok n (modelcache s) = (x, c1)"
    by (cases "eviction_pass w ram tok n (modelcache s)") auto
  have k1: "map fst c1 = map fst (modelcache s)"
    using eviction_pass_keys[of w ram tok n "modelcache s"] ev by simp
  show ?thesis
  proof (cases x)
    case (Some e)
    with assms gm ev k1 show ?thesis by (auto simp: cache_keys_def)
  next
    case None
    obtain y c2 where lr: "load_or_reload w n tok c1 = (y, c2)"
      by (cases "load_or_reload w n tok c1") auto
    from load_or_reload_keys[of w n tok c1] lr k1 obtain ks where
      k2: "map fst c2 = map fst (modelcache s) @ ks"
      "distinct (map fst (modelcache s)) \<longrightarrow> distinct (map fst (modelcache s) @ ks)"
      by auto
    from assms gm ev None lr have s': "modelcache s' = c2" "max_ram s' = max_ram s"
      "license_match s' = license_match s"
      by (auto split: option.splits)
    have "\<forall>entry. r = Inr entry \<longrightarrow> map_of (modelcache s') n = Some entry"
      using assms gm ev None lr by (auto split: option.splits)
    with Inr s' k2 show ?thesis by (auto simp: cache_keys_def)
  qed
qed

lemma run_call_step:
  "\<exists>ks. cache_keys (run_call w s c) = cache_keys s @ ks
        \<and> (distinct (cache_keys s) \<longrightarrow> distinct (cache_keys (run_call w s c)))"
proof (cases c)
  case (GetModel mt tok)
  obtain r s' where "get_model w s mt tok = (r, s')" by (cases "get_model w s mt tok") auto
  from get_model_step[OF this] this GetModel show ?thesis by auto
next
  case (SetMaxRam v)
  then show ?thesis
    by (auto simp: set_max_ram_def cache_keys_def split: sum.splits)
next
  case (RequireModelLicense p)
  then show ?thesis by (simp add: require_model_license_def cache_keys_def)
qed

lemma run_calls_step:
  "\<exists>ks. cache_keys (run_calls w s cs) = cache_keys s @ ks
        \<and> (distinct (cache_keys s) \<longrightarrow> distinct (cache_keys (run_calls w s cs)))"
proof (induction cs arbitrary: s)
  case Nil
  then show ?case by simp
next
  case (Cons c cs)
  from run_call_step[of w s c] obtain k1 where
    a: "cache_keys (run_call w s c) = cache_keys s @ k1"
    "distinct (cache_keys s) \<longrightarrow> distinct (cache_keys (run_call w s c))" by blast
  from Cons.IH[of "run_call w s c"] obtain k2 where
    b: "cache_keys (run_calls w (run_call w s c) cs) = cache_keys (run_call w s c) @ k2"
    "distinct (cache_keys (run_call w s c)) \<longrightarrow> distinct (cache_keys (run_calls w (run_call w s c) cs))"
    by blast
  from a b have "cache_keys (run_calls w s (c # cs)) = cache_keys s @ (k1 @ k2)" by simp
  moreover from a b have "distinct (cache_keys s) \<longrightarrow> distinct (cache_keys (run_calls w s (c # cs)))"
    by simp
  ultimately show ?case by blast
qed

lemma run_calls_append: "run_calls w s (cs @ ds) = run_calls w (run_calls w s cs) ds"
  by (induction cs arbitrary: s) simp_all









lemma std_resolved_initial:
  "resolved_name (std_world no_env) (s\<lparr>max_ram := 512, license_match := None\<rparr>) ''instruct''
     = Inr ''flan-alpaca-xl-ct2-int8''"
  by (simp add: resolved_name_def get_max_ram_def and_then_def
      get_model_name_scan[OF std_pin_absent] models_def licensematch_def catalog_memsize)









lemma reload_absent_model:
  "map_of c n = Some (t, None) \<Longrightarrow> load_or_reload w n False c = (None, c)"
  by (simp add: load_or_reload_def try_load_None AList.update_triv)

lemma full_request_on_tokenizer_only_entry:
  assumes "resolved_name w s mt = Inr n" and "map_of (modelcache s) n = Some (t, None)"
    and "get_model w s mt False = (Inr entry, s')"
  shows "entry = (t, None)"
proof -
  from get_model_unfold[OF assms(1), of False] obtain ram where
    gm: "get_model w s mt False =
     (case eviction_pass w ram False n (modelcache s) of
        (Some e, c1) \<Rightarrow> (Inl e, s\<lparr>modelcache := c1\<rparr>)
      | (None, c1) \<Rightarrow>
          (case load_or_reload w n False c1 of
             (Some e, c2) \<Rightarrow> (Inl e, s\<lparr>modelcache := c2\<rparr>)
           | (None, c2) \<Rightarrow>
               (case map_of c2 n of
                  None \<Rightarrow> (Inl KeyError, s\<lparr>modelcache := c2\<rparr>)
                | Some entry \<Rightarrow> (Inr entry, s\<lparr>modelcache := c2\<rparr>))))"
    by blast
  obtain x c1 where ev: "eviction_pass w ram False n (modelcache s) = (x, c1)"
    by (cases "eviction_pass w ram False n (modelcache s)") auto
  have c1: "map_of c1 n = Some (t, None)"
    using eviction_pass_same_name[of w ram False n "modelcache s"] ev assms(2) by simp
  from reload_absent_model[OF c1, of w] have lr: "load_or_reload w n False c1 = (None, c1)" .
  from assms(3) gm ev lr c1 show ?thesis
    by (cases x) auto
qed

lemma std_name_branch_flan_xl: "name_branch ''flan-alpaca-xl-ct2-int8'' = Translator"
  by (simp add: name_branch_def str_lower_def lower_char_def)

lemma std_build_flan_xl_tokenizer_only:
  "build_entry (std_world no_env) ''flan-alpaca-xl-ct2-int8'' True = Inr (flan_xl_tokenizer, None)"
  by (simp add: build_entry_def std_name_branch_flan_xl and_then_def construct_unless_def
      std_world_def Let_def flan_xl_tokenizer_def)

lemma std_first_tokenizer_only:
  "get_model (std_world no_env) (initial_state (std_world no_env)) ''instruct'' True
     = (Inr (flan_xl_tokenizer, None),
        (initial_state (std_world no_env))
          \<lparr>modelcache := [(''flan-alpaca-xl-ct2-int8'', (flan_xl_tokenizer, None))]\<rparr>)"
proof -
  let ?w = "std_world no_env"
  have i: "initial_state ?w = (initial_state ?w)\<lparr>max_ram := 512, license_match := None\<rparr>"
    by (simp add: initial_state_def std_world_def no_env_def)
  have r: "resolved_name ?w (initial_state ?w) ''instruct'' = Inr ''flan-alpaca-xl-ct2-int8''"
    using std_resolved_initial[of "initial_state ?w"] i by simp
  have c: "modelcache (initial_state ?w) = []" by (simp add: initial_state_def)
  from get_model_unfold[OF r, of True] show ?thesis
    by (auto simp: c eviction_pass_def load_or_reload_def std_build_flan_xl_tokenizer_only)
qed

text \<open>
  Claim C3. The claim has a full request, after a tokenizer-only request first cached the
  name, return a constructed, loaded model. In the code the second call finds the name
  in the cache, tries \<open>load_model\<close> on \<open>None\<close>, swallows the \<open>AttributeError\<close> and
  returns the entry as it is: the model is still \<open>None\<close>. (For every world and state:
  lemma \<open>full_request_on_tokenizer_only_entry\<close>.)
\<close>

theorem tokenizer_only_then_full_absent:
  "fst (get_model (std_world no_env) (initial_state (std_world no_env)) ''instruct'' True)
     = Inr (flan_xl_tokenizer, None)
   \<and> fst (get_model (std_world no_env)
           (snd (get_model (std_world no_env) (initial_state (std_world no_env)) ''instruct'' True))
           ''instruct'' False)
     = Inr (flan_xl_tokenizer, None)"
proof -
  let ?w = "std_world no_env"
  let ?s1 = "(initial_state ?w)\<lparr>modelcache := [(''flan-alpaca-xl-ct2-int8'', (flan_xl_tokenizer, None))]\<rparr>"
  have i: "?s1 = ?s1\<lparr>max_ram := 512, license_match := None\<rparr>"
    by (simp add: initial_state_def std_world_def no_env_def)
  have r: "resolved_name ?w ?s1 ''instruct'' = Inr ''flan-alpaca-xl-ct2-int8''"
    using std_resolved_initial[of ?s1] i by simp
  have ram: "get_max_ram ?w ?s1 = Inr 512"
    by (simp add: get_max_ram_def initial_state_def)
  from get_model_unfold[OF r, of False] ram
  have "fst (get_model ?w ?s1 ''instruct'' False) = Inr (flan_xl_tokenizer, None)"
    by (simp add: eviction_pass_def load_or_reload_def try_load_None)
  then show ?thesis by (simp add: std_first_tokenizer_only)
qed

text \<open>
  Claim C8. After every sequence of calls from the initial state the keys of the cache
  are distinct, and a longer sequence only adds keys at the end: no entry is ever
  removed. One \<open>get_model\<close> call, failing or not, keeps the keys it found, in order, and
  keeps them distinct; when it succeeds, the resolved name is a key of the cache and the
  pair it returns is the entry stored under that name.
\<close>

theorem cache_entries_persist:
  "distinct (cache_keys (run_calls w (initial_state w) calls))
   \<and> (\<exists>ks. cache_keys (run_calls w (initial_state w) (calls @ later))
             = cache_keys (run_calls w (initial_state w) calls) @ ks)
   \<and> (get_model w s model_type tokenizer_only = (r, s') \<longrightarrow>
        (\<exists>ks. cache_keys s' = cache_keys s @ ks
            \<and> (distinct (cache_keys s) \<longrightarrow> distinct (cache_keys s')))
        \<and> (\<forall>entry. r = Inr entry \<longrightarrow>
            (\<exists>n. resolved_name w s model_type = Inr n \<and> n \<in> set (cache_keys s')
                 \<and> map_of (modelcache s') n = Some entry)))"
proof (intro conjI impI)
  have "distinct (cache_keys (initial_state w))"
    by (simp add: cache_keys_def initial_state_def)
  with run_calls_step[of w "initial_state w" calls]
  show "distinct (cache_keys (run_calls w (initial_state w) calls))" by blast
next
  from run_calls_step[of w "run_calls w (initial_state w) calls" later]
  show "\<exists>ks. cache_keys (run_calls w (initial_state w) (calls @ later))
             = cache_keys (run_calls w (initial_state w) calls) @ ks"
    by (auto simp: run_calls_append)
next
  assume a: "get_model w s model_type tokenizer_only = (r, s')"
  from get_model_step[OF a]
  show "\<exists>ks. cache_keys s' = cache_keys s @ ks
            \<and> (distinct (cache_keys s) \<longrightarrow> distinct (cache_keys s'))" by blast
  show "\<forall>entry. r = Inr entry \<longrightarrow>
            (\<exists>n. resolved_name w s model_type = Inr n \<and> n \<in> set (cache_keys s')
                 \<and> map_of (modelcache s') n = Some entry)"
  proof (intro allI impI)
    fix entry assume "r = Inr entry"
    with get_model_step[OF a] obtain n where n: "resolved_name w s model_type = Inr n"
      "map_of (modelcache s') n = Some entry" by blast
    then have "n \<in> set (cache_keys s')"
      using map_of_None_keys[of "modelcache s'" n] by (simp add: cache_keys_def)
    with n show "\<exists>n. resolved_name w s model_type = Inr n \<and> n \<in> set (cache_keys s')
                 \<and> map_of (modelcache s') n = Some entry" by blast
  qed
qed

theorem cache_entries_persist_witness:
  "get_model (std_world no_env) (initial_state (std_world no_env)) ''instruct'' True
     = (Inr (flan_xl_tokenizer, None),
        (initial_state (std_world no_env))
          \<lparr>modelcache := [(''flan-alpaca-xl-ct2-int8'', (flan_xl_tokenizer, None))]\<rparr>)
   \<and> ''flan-alpaca-xl-ct2-int8'' \<in> set (cache_keys ((initial_state (std_world no_env))
          \<lparr>modelcache := [(''flan-alpaca-xl-ct2-int8'', (flan_xl_tokenizer, None))]\<rparr>))
   \<and> distinct (cache_keys (run_calls (std_world no_env) (initial_state (std_world no_env))
          [GetModel ''instruct'' True, SetMaxRam (PyStr ''1g''), GetModel ''instruct'' False]))"
proof -
  let ?w = "std_world no_env"
  let ?s1 = "(initial_state ?w)\<lparr>modelcache := [(''flan-alpaca-xl-ct2-int8'', (flan_xl_tokenizer, None))]\<rparr>"
  note T = cache_entries_persist[of ?w "[GetModel ''instruct'' True, SetMaxRam (PyStr ''1g''), GetModel ''instruct'' False]"
      "[]" "initial_state ?w" "''instruct''" True "Inr (flan_xl_tokenizer, None)" ?s1]
  have i: "initial_state ?w = (initial_state ?w)\<lparr>max_ram := 512, license_match := None\<rparr>"
    by (simp add: initial_state_def std_world_def no_env_def)
  have r: "resolved_name ?w (initial_state ?w) ''instruct'' = Inr ''flan-alpaca-xl-ct2-int8''"
    using std_resolved_initial[of "initial_state ?w"] i by simp
  from T std_first_tokenizer_only r
  have "''flan-alpaca-xl-ct2-int8'' \<in> set (cache_keys ?s1)" by auto
  moreover from T have "distinct (cache_keys (run_calls ?w (initial_state ?w)
          [GetModel ''instruct'' True, SetMaxRam (PyStr ''1g''), GetModel ''instruct'' False]))"
    by blast
  ultimately show ?thesis using std_first_tokenizer_only by blast
qed

end
